theory Spec2Isabelle
  imports Main "HOL-Library.Word" "HOL-Library.Sublist" "HOL-Library.Char_ord" "HOL-Library.List_Lexorder"
begin

section \<open>The size-capped capture buffer of the tail transport\<close>






section \<open>The RPC bridge: data\<close>

text \<open>
  The richer revision of \<^verbatim>\<open>MCPBridge\<close> (the one with owners, reasoning buffers and the
  idle timer) is the one modelled. Request ids are Go \<^verbatim>\<open>int64\<close> values.
\<close>

type_synonym int64 = "64 word"

text \<open>
  Decoded JSON, as \<^verbatim>\<open>encoding/json\<close> hands it to the bridge in a \<^verbatim>\<open>map[string]any\<close>.
  An object is the association list of its decoded map, each key once. A number \<open>JNum n\<close>
  stands for the \<^verbatim>\<open>float64\<close> of integer value \<open>n\<close>; \<^verbatim>\<open>int64(v)\<close> is read as
  \<^term>\<open>word_of_int n\<close>. Numbers with a fractional part, which the protocol does not use
  for ids, are outside the model.
\<close>

datatype json = JNull | JBool bool | JNum int | JStr string | JArr "json list"
  | JObj "(string \<times> json) list"

type_synonym jmap = "(string \<times> json) list option"

text \<open>Lookup in a possibly nil map; the type assertions \<^verbatim>\<open>x.(map[string]any)\<close> and \<^verbatim>\<open>x.(string)\<close> with the \<^verbatim>\<open>ok\<close> result discarded.\<close>

definition field :: "jmap \<Rightarrow> string \<Rightarrow> json option" where
  "field m k = (case m of None \<Rightarrow> None | Some kv \<Rightarrow> map_of kv k)"

definition as_map :: "json option \<Rightarrow> jmap" where
  "as_map v = (case v of Some (JObj kv) \<Rightarrow> Some kv | _ \<Rightarrow> None)"

definition as_string :: "json option \<Rightarrow> string" where
  "as_string v = (case v of Some (JStr s) \<Rightarrow> s | _ \<Rightarrow> [])"

text \<open>\<^verbatim>\<open>json.Unmarshal\<close> into a \<^verbatim>\<open>map[string]any\<close>: an object decodes, \<^verbatim>\<open>null\<close> leaves the map nil without error, anything else is an error.\<close>

definition unmarshal_map :: "json \<Rightarrow> jmap option" where
  "unmarshal_map j = (case j of JObj kv \<Rightarrow> Some (Some kv) | JNull \<Rightarrow> Some None | _ \<Rightarrow> None)"

text \<open>\<^verbatim>\<open>strings.TrimSpace\<close> on the ASCII white space (tab, line feed, vertical tab, form feed, carriage return, space); the multi-byte Unicode spaces are left out.\<close>

definition is_space :: "char \<Rightarrow> bool" where
  "is_space c = (of_char c \<in> {9, 10, 11, 12, 13, 32 :: nat})"

definition TrimSpace :: "string \<Rightarrow> string" where
  "TrimSpace s = rev (dropWhile is_space (rev (dropWhile is_space s)))"

text \<open>\<^verbatim>\<open>truncate\<close> (lines 1043 to 1051) cuts at bytes. Its callers pass the constants 120 and 240, so the bound is a \<^typ>\<open>nat\<close>.\<close>

definition truncate_str :: "string \<Rightarrow> nat \<Rightarrow> string" where
  "truncate_str s n =
     (if length s \<le> n then s
      else if n \<le> 3 then take n s
      else take (n - 3) s @ ''...'')"

datatype error =
    WriteError string
  | CtxError string
  | RequestTimeout
  | StartError string
  | NonNumericId string
  | NilStdin

text \<open>
  \<^verbatim>\<open>parseID\<close> (lines 1023 to 1033): decimal digits only, accumulated in an \<^verbatim>\<open>int64\<close>
  that wraps. The empty string parses as 0.
\<close>

fun parseID_from :: "int64 \<Rightarrow> string \<Rightarrow> string \<Rightarrow> error + int64" where
  "parseID_from n s [] = Inr n"
| "parseID_from n s (c # cs) =
     (if (of_char c :: nat) < 48 \<or> (of_char c :: nat) > 57 then Inl (NonNumericId s)
      else parseID_from (n * 10 + of_nat (of_char c - 48)) s cs)"

definition parseID :: "string \<Rightarrow> error + int64" where
  "parseID s = parseID_from 0 s s"

record Codex =
  Command :: string
  SessionRoot :: string
  TimeoutSeconds :: int
  Debug :: bool
  IdleSeconds :: int
  Preamble :: string

record Channel =
  ChannelID :: string
  ch_Command :: string
  Workdir :: string
  Env :: "(string \<times> string) list"

text \<open>What a spawned command is: its argument vector, its directory, its environment.\<close>

record cmdline =
  argv :: "string list"
  dir :: string
  cmd_env :: "string list"

datatype params =
    CallParams string "string \<rightharpoonup> string"
  | InitParams
  | NoParams

record request =
  req_id :: "int64 option"
  req_method :: string
  req_params :: params

text \<open>
  What the bridge does to the world outside it, in order: processes spawned and killed,
  pipes closed, lines written to a process's input (with the error of the write, if any),
  and the callbacks it invokes.
\<close>

datatype event =
    Spawned nat cmdline
  | StdinClosed nat
  | Killed nat
  | GroupKilled nat
  | Wrote nat request "error option"
  | OnReasoning string string
  | OnReasoningEnd string
  | OnAgentDelta string int64 string
  | OnAgentDone string int64 string
  | OnUp
  | OnDown

text \<open>
  The fields of the Go struct. A process, its input pipe and its death channel are named by
  the index of the process among those spawned; \<^verbatim>\<open>nil\<close> is \<^term>\<open>None\<close>. A response slot
  (\<^verbatim>\<open>chan json.RawMessage\<close>) is named by the index of the channel among those made. A
  callback field says whether the callback is set. The idle timer holds the time at which
  it fires and the \<^verbatim>\<open>sec\<close> its handler captured.
\<close>

record MCPBridge =
  conf :: Codex
  debug :: bool
  cmd :: "nat option"
  stdin :: "nat option"
  ready :: bool
  reqID :: int64
  pending :: "int64 \<rightharpoonup> nat"
  convo :: "string \<rightharpoonup> string"
  deadCh :: "nat option"
  owners :: "int64 \<rightharpoonup> string"
  reasonBuf :: "int64 \<rightharpoonup> string"
  onReasoning :: bool
  onReasoningEnd :: bool
  onAgentDelta :: bool
  onAgentDone :: bool
  onUp :: bool
  onDown :: bool
  idleSeconds :: int
  idleTimer :: "(int \<times> int) option"
  lastActive :: int

text \<open>
  The bridge together with what it shares with the rest of the program: the clock (in
  nanoseconds), the processes spawned so far (\<^term>\<open>True\<close> once a process has exited and its
  death channel is closed), the channels made so far (every message ever sent on a channel,
  and how many of them have been received), whether the reader task is stuck in a send,
  and the trace of events.
\<close>

record chan =
  sent :: "json list"
  taken :: nat

record world = MCPBridge +
  clock :: int
  exited :: "bool list"
  chans :: "chan list"
  blocked :: bool
  trace :: "event list"

definition NewMCPBridge :: "Codex \<Rightarrow> bool \<Rightarrow> world" where
  "NewMCPBridge c env_debug =
     \<lparr>conf = c, debug = (Debug c \<or> env_debug), cmd = None, stdin = None, ready = False,
      reqID = 0, pending = Map.empty, convo = Map.empty, deadCh = None,
      owners = Map.empty, reasonBuf = Map.empty,
      onReasoning = False, onReasoningEnd = False, onAgentDelta = False,
      onAgentDone = False, onUp = False, onDown = False,
      idleSeconds = IdleSeconds c, idleTimer = None, lastActive = 0,
      clock = 0, exited = [], chans = [], blocked = False, trace = []\<rparr>"

section \<open>The RPC bridge: operations\<close>

definition emit :: "world \<Rightarrow> event \<Rightarrow> world" where
  "emit w e = w\<lparr>trace := trace w @ [e]\<rparr>"

subsection \<open>Idle supervision (lines 663 to 690)\<close>

text \<open>
  \<^verbatim>\<open>time.Duration(n) * time.Second\<close> is a product of \<^verbatim>\<open>int64\<close> values and wraps;
  \<^verbatim>\<open>time.Since\<close> saturates at the ends of the \<^verbatim>\<open>int64\<close> range.
\<close>

definition seconds :: "int \<Rightarrow> int" where
  "seconds n = sint (word_of_int n * 1000000000 :: 64 word)"

definition since :: "int \<Rightarrow> int \<Rightarrow> int" where
  "since now t = max (- (2 ^ 63)) (min (2 ^ 63 - 1) (now - t))"

definition touchActivity :: "world \<Rightarrow> world" where
  "touchActivity w =
     (if idleSeconds w \<le> 0 then w
      else w\<lparr>lastActive := clock w,
             idleTimer := Some (clock w + seconds (idleSeconds w), idleSeconds w)\<rparr>)"

text \<open>The test the timer's handler makes before it closes the bridge; \<open>sec\<close> is the value the handler captured when the timer was armed.\<close>

definition idleExpired :: "world \<Rightarrow> int \<Rightarrow> bool" where
  "idleExpired w sec =
     (if idleSeconds w \<le> 0 then False
      else if since (clock w) (lastActive w) < seconds sec then False
      else True)"

subsection \<open>Delivery of responses (lines 1258 to 1269)\<close>

text \<open>
  A response slot is a channel of capacity 1. A send on a channel whose buffer is full
  (or on no channel at all) does not return: the reader task is then stuck.
\<close>

definition buffered :: "chan \<Rightarrow> json list" where
  "buffered c = drop (taken c) (sent c)"

definition deliver :: "world \<Rightarrow> int64 \<Rightarrow> json \<Rightarrow> world" where
  "deliver w i v =
     (case pending w i of
        None \<Rightarrow> w
      | Some c \<Rightarrow>
          (let w1 = w\<lparr>pending := (pending w)(i := None)\<rparr>
           in if c < length (chans w1) \<and> buffered (chans w1 ! c) = []
              then w1\<lparr>chans := (chans w1)[c := (chans w1 ! c)\<lparr>sent := sent (chans w1 ! c) @ [v]\<rparr>]\<rparr>
              else w1\<lparr>blocked := True\<rparr>))"

subsection \<open>Notifications (lines 1165 to 1256)\<close>

definition owner_of :: "world \<Rightarrow> int64 \<Rightarrow> string" where
  "owner_of w i = (case owners w i of None \<Rightarrow> [] | Some c \<Rightarrow> c)"

text \<open>Lines 1172 to 1187: the owner of the request an event names, or the empty string.\<close>

definition event_owner :: "world \<Rightarrow> jmap \<Rightarrow> string" where
  "event_owner w meta =
     (case field meta ''requestId'' of
        Some (JNum t) \<Rightarrow> owner_of w (word_of_int t)
      | Some (JStr t) \<Rightarrow> (case parseID t of Inr i \<Rightarrow> owner_of w i | Inl e \<Rightarrow> [])
      | _ \<Rightarrow> [])"

text \<open>The key \<^verbatim>\<open>meta["requestId"].(float64)\<close> gives: 0 unless the id is a number.\<close>

definition event_key :: "jmap \<Rightarrow> int64" where
  "event_key meta = (case field meta ''requestId'' of Some (JNum rv) \<Rightarrow> word_of_int rv | _ \<Rightarrow> 0)"

text \<open>The body shared by \<^verbatim>\<open>agent_message\<close> (by fallthrough) and \<^verbatim>\<open>task_complete\<close>.\<close>

definition end_reasoning :: "world \<Rightarrow> jmap \<Rightarrow> string \<Rightarrow> world" where
  "end_reasoning w meta owner =
     (let w1 = w\<lparr>reasonBuf := (reasonBuf w)(event_key meta := None)\<rparr>
      in if onReasoningEnd w1 \<and> owner \<noteq> [] then emit w1 (OnReasoningEnd owner) else w1)"

definition handleNotify :: "world \<Rightarrow> jmap \<Rightarrow> world" where
  "handleNotify w raw =
     (if as_string (field raw ''method'') \<noteq> ''codex/event'' then w
      else
        let params = as_map (field raw ''params'');
            meta = as_map (field params ''_meta'');
            owner = event_owner w meta;
            msg = as_map (field params ''msg'')
        in if msg = None then w
           else
             let typ = as_string (field msg ''type'');
                 w1 = touchActivity w
             in if typ = ''agent_reasoning_delta'' then
                  (let delta = as_string (field msg ''delta'')
                   in if delta = [] then w1
                      else
                        let key = event_key meta;
                            text = (case reasonBuf w1 key of None \<Rightarrow> [] | Some b \<Rightarrow> b) @ delta;
                            w2 = w1\<lparr>reasonBuf := (reasonBuf w1)(key \<mapsto> text)\<rparr>
                        in if onReasoning w2 \<and> owner \<noteq> []
                           then emit w2 (OnReasoning owner (truncate_str text 120)) else w2)
                else if typ = ''agent_reasoning'' then
                  (let final = as_string (field msg ''message'')
                   in if final = [] then w1
                      else if onReasoning w1 \<and> owner \<noteq> []
                           then emit w1 (OnReasoning owner (truncate_str final 120)) else w1)
                else if typ = ''agent_message_delta'' then
                  (let d = as_string (field msg ''delta'')
                   in if d = [] then w1
                      else if onAgentDelta w1 \<and> owner \<noteq> []
                           then emit w1 (OnAgentDelta owner (event_key meta) d) else w1)
                else if typ = ''agent_message'' then
                  (let final = as_string (field msg ''message'');
                       w2 = (if onAgentDone w1 \<and> owner \<noteq> []
                             then emit w1 (OnAgentDone owner (event_key meta) final) else w1)
                   in end_reasoning w2 meta owner)
                else if typ = ''task_complete'' then end_reasoning w1 meta owner
                else w1)"

subsection \<open>The reader task (lines 1123 to 1163)\<close>

text \<open>
  A line of the process's output is given as \<^verbatim>\<open>json.Unmarshal\<close> sees it after trimming:
  \<^term>\<open>None\<close> for a blank line or one that is not JSON. A reader stuck in a send handles
  no further line.
\<close>

definition respond :: "world \<Rightarrow> int64 \<Rightarrow> jmap \<Rightarrow> world" where
  "respond w i raw =
     (case field raw ''result'' of
        Some res \<Rightarrow> deliver w i res
      | None \<Rightarrow> (case field raw ''error'' of Some errObj \<Rightarrow> deliver w i errObj | None \<Rightarrow> w))"

definition handleLine :: "world \<Rightarrow> json option \<Rightarrow> world" where
  "handleLine w line =
     (if blocked w then w
      else case line of
        None \<Rightarrow> w
      | Some j \<Rightarrow>
          (case unmarshal_map j of
             None \<Rightarrow> w
           | Some raw \<Rightarrow>
               if as_string (field raw ''method'') \<noteq> [] then handleNotify w raw
               else (case field raw ''id'' of
                       Some (JNum v) \<Rightarrow> respond w (word_of_int v) raw
                     | Some (JStr v) \<Rightarrow>
                         (case parseID v of Inr i \<Rightarrow> respond w i raw | Inl e \<Rightarrow> w)
                     | _ \<Rightarrow> w)))"


text \<open>The reader at work while a caller waits: each line arrives after a delay (in nanoseconds).\<close>

fun readArrivals :: "world \<Rightarrow> (nat \<times> json option) list \<Rightarrow> world" where
  "readArrivals w [] = w"
| "readArrivals w ((dt, line) # rest) =
     readArrivals (handleLine (w\<lparr>clock := clock w + int dt\<rparr>) line) rest"

subsection \<open>Requests (lines 1053 to 1121)\<close>

text \<open>
  What the surroundings do while a request is out: whether the write to the input pipe
  fails, the lines the reader handles during the wait, and how the \<^verbatim>\<open>select\<close> ends: with
  the response if one is buffered and the \<^verbatim>\<open>select\<close> takes it, else with the caller's
  cancellation or with the request's timeout.
\<close>

datatype wake = CtxDone string | TimedOut

record req_env =
  write_err :: "error option"
  arrivals :: "(nat \<times> json option) list"
  resp_first :: bool
  wake_by :: wake

definition request_timeout :: "world \<Rightarrow> int" where
  "request_timeout w =
     (let to = TimeoutSeconds (conf w) in seconds (if to \<le> 0 then 180 else to))"

definition chan_at :: "world \<Rightarrow> nat \<Rightarrow> chan" where
  "chan_at w c = (if c < length (chans w) then chans w ! c else \<lparr>sent = [], taken = 0\<rparr>)"

text \<open>The \<^verbatim>\<open>select\<close> of lines 1103 to 1110 on the slot \<open>c\<close>, for a request written at time \<open>t0\<close>.\<close>

definition await :: "world \<Rightarrow> nat \<Rightarrow> int \<Rightarrow> req_env \<Rightarrow> (error + json) \<times> world" where
  "await w c t0 env =
     (let w1 = readArrivals w (arrivals env)
      in if buffered (chan_at w1 c) \<noteq> [] \<and> resp_first env
         then (Inr (hd (buffered (chan_at w1 c))),
               w1\<lparr>chans := (chans w1)[c := (chan_at w1 c)\<lparr>taken := Suc (taken (chan_at w1 c))\<rparr>]\<rparr>)
         else (case wake_by env of
                 CtxDone e \<Rightarrow> (Inl (CtxError e), w1)
               | TimedOut \<Rightarrow>
                   (Inl RequestTimeout, w1\<lparr>clock := max (clock w1) (t0 + request_timeout w1)\<rparr>)))"

text \<open>
  \<^verbatim>\<open>m.stdin.Write\<close>: on a nil \<^verbatim>\<open>stdin\<close> the call panics, which is the result
  \<^term>\<open>Inl NilStdin\<close>; otherwise the write is recorded with its outcome.
\<close>

definition write_line :: "world \<Rightarrow> request \<Rightarrow> error option \<Rightarrow> error option \<times> world" where
  "write_line w r err =
     (case stdin w of
        None \<Rightarrow> (Some NilStdin, w)
      | Some h \<Rightarrow> (err, emit w (Wrote h r err)))"

definition request :: "world \<Rightarrow> string \<Rightarrow> params \<Rightarrow> req_env \<Rightarrow> (error + json) \<times> world" where
  "request w method ps env =
     (let i = reqID w + 1;
          c = length (chans w);
          w1 = w\<lparr>reqID := i, pending := (pending w)(i \<mapsto> c),
                 chans := chans w @ [\<lparr>sent = [], taken = 0\<rparr>]\<rparr>;
          (err, w2) = write_line w1 \<lparr>req_id = Some i, req_method = method, req_params = ps\<rparr>
                        (write_err env)
      in case err of
           Some e \<Rightarrow> (Inl e, w2)
         | None \<Rightarrow> await w2 c (clock w2) env)"

definition requestForChannel ::
  "world \<Rightarrow> string \<Rightarrow> params \<Rightarrow> string \<Rightarrow> req_env \<Rightarrow> (error + json) \<times> world" where
  "requestForChannel w method ps channelID env =
     (let i = reqID w + 1;
          c = length (chans w);
          w1 = w\<lparr>reqID := i, pending := (pending w)(i \<mapsto> c),
                 owners := (if channelID \<noteq> [] then (owners w)(i \<mapsto> channelID) else owners w),
                 chans := chans w @ [\<lparr>sent = [], taken = 0\<rparr>]\<rparr>;
          (err, w2) = write_line w1 \<lparr>req_id = Some i, req_method = method, req_params = ps\<rparr>
                        (write_err env)
      in case err of
           Some e \<Rightarrow> (Inl e, w2)
         | None \<Rightarrow> await w2 c (clock w2) env)"

definition notify :: "world \<Rightarrow> string \<Rightarrow> params \<Rightarrow> error option \<Rightarrow> error option \<times> world" where
  "notify w method ps err =
     write_line w \<lparr>req_id = None, req_method = method, req_params = ps\<rparr> err"

subsection \<open>Starting the process (lines 692 to 831)\<close>

text \<open>
  The host the bridge runs on: whether \<^verbatim>\<open>runtime.GOOS\<close> is \<^verbatim>\<open>windows\<close>, and what
  \<^verbatim>\<open>exec.LookPath("codex")\<close> finds.
\<close>

record platform =
  windows :: bool
  look_path :: "string option"

definition to_lower :: "string \<Rightarrow> string" where
  "to_lower s =
     map (\<lambda>c. if 65 \<le> (of_char c :: nat) \<and> (of_char c :: nat) \<le> 90
               then char_of ((of_char c :: nat) + 32) else c) s"

text \<open>\<^verbatim>\<open>filepath.Ext\<close> where the path separators are the slash and the backslash (byte 92): the suffix from the last dot of the last path element.\<close>

definition Ext :: "string \<Rightarrow> string" where
  "Ext p =
     (let r = takeWhile (\<lambda>c. c \<noteq> CHR ''/'' \<and> (of_char c :: nat) \<noteq> 92) (rev p)
      in if CHR ''.'' \<in> set r then rev (takeWhile (\<lambda>c. c \<noteq> CHR ''.'') r @ ''.'') else [])"

definition build_command :: "platform \<Rightarrow> Codex \<Rightarrow> Channel \<Rightarrow> cmdline" where
  "build_command pf c ch =
     (let line0 = TrimSpace (ch_Command ch);
          line = (if line0 = [] then TrimSpace (Command c) else line0);
          args =
            (if line = [] then
               (case look_path pf of
                  Some p \<Rightarrow>
                    if windows pf then
                      (if to_lower (Ext p) = ''.ps1''
                       then [''powershell'', ''-NoLogo'', ''-ExecutionPolicy'', ''Bypass'',
                             ''-File'', p, ''mcp'']
                       else [p, ''mcp''])
                    else [p, ''mcp'']
                | None \<Rightarrow> [''codex'', ''mcp''])
             else if windows pf then [''powershell'', ''-NoLogo'', ''-Command'', line]
             else [''bash'', ''-lc'', line]);
          env = (if length (Env ch) > 0
                 then map (\<lambda>k. k @ ''='' @ (case map_of (Env ch) k of Some v \<Rightarrow> v | None \<Rightarrow> []))
                        (sort (map fst (Env ch)))
                 else [])
      in \<lparr>argv = args, dir = Workdir ch, cmd_env = env\<rparr>)"

text \<open>
  What the surroundings do during \<^verbatim>\<open>start\<close>: whether making the pipes or spawning fails,
  how the \<^verbatim>\<open>initialize\<close> request goes, and whether writing \<^verbatim>\<open>initialized\<close> fails.
\<close>

record start_env =
  pipe_err :: "error option"
  spawn_err :: "error option"
  init_env :: req_env
  inited_err :: "error option"

definition start :: "world \<Rightarrow> platform \<Rightarrow> Channel \<Rightarrow> start_env \<Rightarrow> error option \<times> world" where
  "start w pf ch env =
     (case pipe_err env of
        Some e \<Rightarrow> (Some e, w)
      | None \<Rightarrow>
          (case spawn_err env of
             Some e \<Rightarrow> (Some e, w)
           | None \<Rightarrow>
               (let h = length (exited w);
                    w1 = emit (w\<lparr>cmd := Some h, stdin := Some h, deadCh := Some h,
                                  exited := exited w @ [False]\<rparr>)
                           (Spawned h (build_command pf (conf w) ch));
                    w2 = snd (request w1 ''initialize'' InitParams (init_env env));
                    w3 = snd (notify w2 ''initialized'' NoParams (inited_err env));
                    w4 = w3\<lparr>ready := True\<rparr>;
                    w5 = (if onUp w4 then emit w4 OnUp else w4)
                in (None, touchActivity w5))))"

text \<open>Lines 790 to 799: the task that waits for process \<open>h\<close> to exit.\<close>

definition procExit :: "world \<Rightarrow> nat \<Rightarrow> world" where
  "procExit w h =
     (let w1 = w\<lparr>ready := False, exited := (exited w)[h := True]\<rparr>
      in if onDown w1 then emit w1 OnDown else w1)"

definition isDead :: "world \<Rightarrow> bool" where
  "isDead w = (case deadCh w of None \<Rightarrow> False | Some h \<Rightarrow> h < length (exited w) \<and> exited w ! h)"

text \<open>The test \<^verbatim>\<open>ensureStarted\<close> makes while it holds the mutex.\<close>

definition already :: "world \<Rightarrow> bool" where
  "already w = (ready w \<and> deadCh w \<noteq> None \<and> \<not> isDead w)"

definition ensureStarted :: "world \<Rightarrow> platform \<Rightarrow> Channel \<Rightarrow> start_env \<Rightarrow> error option \<times> world" where
  "ensureStarted w pf ch env = (if already w then (None, w) else start w pf ch env)"

subsection \<open>Closing (lines 1272 to 1300)\<close>

record close_env =
  shutdown_env :: req_env
  exit_err :: "error option"
  exits_in_time :: bool

definition Close :: "world \<Rightarrow> close_env \<Rightarrow> world" where
  "Close w env =
     (let cmd0 = cmd w;
          stdin0 = stdin w;
          w1 = (case stdin0 of
                  None \<Rightarrow> w
                | Some h \<Rightarrow>
                    (let wa = snd (request w ''shutdown'' NoParams (shutdown_env env));
                         wb = snd (notify wa ''exit'' NoParams (exit_err env));
                         wc = wb\<lparr>clock := clock wb + 100000000\<rparr>
                     in emit wc (StdinClosed h)))
      in case cmd0 of
           None \<Rightarrow> w1
         | Some h \<Rightarrow>
             if exits_in_time env then w1
             else emit (emit (w1\<lparr>clock := clock w1 + 1000000000\<rparr>) (GroupKilled h)) (Killed h))"

text \<open>The handler of the idle timer armed with \<open>sec\<close>, run when the timer fires.\<close>

definition idleFire :: "world \<Rightarrow> int \<Rightarrow> close_env \<Rightarrow> world" where
  "idleFire w sec env = (if idleExpired w sec then Close w env else w)"

subsection \<open>A chat turn (lines 845 to 925)\<close>

text \<open>Lines 851 to 873: the tool and its arguments. The context carries the user tag, if one was attached.\<close>

definition chat_call :: "world \<Rightarrow> string option \<Rightarrow> Channel \<Rightarrow> string \<Rightarrow> string \<times> (string \<rightharpoonup> string)" where
  "chat_call w user_tag ch prompt =
     (let args0 = [''prompt'' \<mapsto> prompt];
          args1 = (case user_tag of Some v \<Rightarrow> args0(''user'' \<mapsto> v) | None \<Rightarrow> args0)
      in case convo w (ChannelID ch) of
           Some v \<Rightarrow> (''codex-reply'', args1(''conversationId'' \<mapsto> v))
         | None \<Rightarrow>
             (let pre = TrimSpace (Preamble (conf w));
                  args2 = (if pre \<noteq> []
                           then args1(''prompt'' \<mapsto> pre @ [CHR 0x0A, CHR 0x0A] @ TrimSpace prompt)
                           else args1);
                  args3 = args2(''sandbox'' \<mapsto> ''workspace-write'', ''approval-policy'' \<mapsto> ''never'')
              in (''codex'', if Workdir ch \<noteq> [] then args3(''cwd'' \<mapsto> Workdir ch) else args3)))"

text \<open>Lines 885 to 895: the forced teardown after a failed request.\<close>

definition teardown :: "world \<Rightarrow> world" where
  "teardown w =
     (let w1 = (case stdin w of Some h \<Rightarrow> (emit w (StdinClosed h))\<lparr>stdin := None\<rparr> | None \<Rightarrow> w);
          w2 = (case cmd w1 of Some h \<Rightarrow> emit w1 (Killed h) | None \<Rightarrow> w1)
      in w2\<lparr>ready := False, pending := Map.empty\<rparr>)"

text \<open>Lines 903 to 908: the activity mark after the response, and the binding of the conversation id.\<close>

definition bind_result :: "world \<Rightarrow> Channel \<Rightarrow> json \<Rightarrow> world" where
  "bind_result w ch res =
     (let w1 = touchActivity w
      in case unmarshal_map res of
           None \<Rightarrow> w1
         | Some obj \<Rightarrow>
             (case field obj ''conversationId'' of
                Some (JStr cid) \<Rightarrow>
                  if cid \<noteq> [] then w1\<lparr>convo := (convo w1)(ChannelID ch \<mapsto> cid)\<rparr> else w1
              | _ \<Rightarrow> w1))"

record chat_env =
  start1 :: start_env
  first :: req_env
  start2 :: start_env
  second :: req_env

text \<open>
  \<^verbatim>\<open>ChatMulti\<close>, up to the raw result of the call: the texts the Go function then
  extracts from that result (lines 909 to 924) are a function of the result alone. A panic
  of a request (a write on a nil pipe) ends the turn at once.
\<close>

definition ChatMulti ::
  "world \<Rightarrow> platform \<Rightarrow> string option \<Rightarrow> Channel \<Rightarrow> string \<Rightarrow> chat_env \<Rightarrow> (error + json) \<times> world" where
  "ChatMulti w pf user_tag ch prompt env =
     (case ensureStarted w pf ch (start1 env) of
        (Some e, w1) \<Rightarrow> (Inl e, w1)
      | (None, w1) \<Rightarrow>
          (let w2 = touchActivity w1;
               (tool, args) = chat_call w2 user_tag ch prompt
           in case requestForChannel w2 ''tools/call'' (CallParams tool args) (ChannelID ch) (first env) of
                (Inr res, w3) \<Rightarrow> (Inr res, bind_result w3 ch res)
              | (Inl NilStdin, w3) \<Rightarrow> (Inl NilStdin, w3)
              | (Inl err, w3) \<Rightarrow>
                  (case ensureStarted (teardown w3) pf ch (start2 env) of
                     (Some e, w4) \<Rightarrow> (Inl err, w4)
                   | (None, w4) \<Rightarrow>
                       (case requestForChannel w4 ''tools/call'' (CallParams tool args)
                               (ChannelID ch) (second env) of
                          (Inr res, w5) \<Rightarrow> (Inr res, bind_result w5 ch res)
                        | (Inl err2, w5) \<Rightarrow> (Inl err2, w5)))))"

subsection \<open>Resetting a conversation (lines 1303 to 1311)\<close>

definition Reset :: "world \<Rightarrow> string \<Rightarrow> world" where
  "Reset w channelID = (if channelID = [] then w else w\<lparr>convo := (convo w)(channelID := None)\<rparr>)"

subsection \<open>Callers of \<^verbatim>\<open>ensureStarted\<close> side by side\<close>

text \<open>
  \<^verbatim>\<open>ensureStarted\<close> makes its test under the mutex (lines 693 to 695), releases the
  mutex, and only then calls \<^verbatim>\<open>start\<close> (line 700). A caller is therefore at one of three
  points: before the test, between the test and \<^verbatim>\<open>start\<close>, or done; and another caller
  may take a step in between. \<^verbatim>\<open>start\<close> is taken in one step here, which leaves out
  interleavings but adds none. A schedule names the caller that takes the next step.
\<close>

datatype pc = AtCheck | AtStart | Returned

record callers =
  shared :: world
  pcs :: "pc list"

definition step_caller :: "platform \<Rightarrow> Channel \<Rightarrow> start_env \<Rightarrow> callers \<Rightarrow> nat \<Rightarrow> callers" where
  "step_caller pf ch env cs i =
     (if i < length (pcs cs) then
        (case pcs cs ! i of
           AtCheck \<Rightarrow> cs\<lparr>pcs := (pcs cs)[i := (if already (shared cs) then Returned else AtStart)]\<rparr>
         | AtStart \<Rightarrow> cs\<lparr>shared := snd (start (shared cs) pf ch env), pcs := (pcs cs)[i := Returned]\<rparr>
         | Returned \<Rightarrow> cs)
      else cs)"

fun run_callers :: "platform \<Rightarrow> Channel \<Rightarrow> start_env \<Rightarrow> callers \<Rightarrow> nat list \<Rightarrow> callers" where
  "run_callers pf ch env cs [] = cs"
| "run_callers pf ch env cs (i # sched) = run_callers pf ch env (step_caller pf ch env cs i) sched"

definition spawns :: "event list \<Rightarrow> nat list" where
  "spawns evs = concat (map (\<lambda>e. case e of Spawned h c \<Rightarrow> [h] | _ \<Rightarrow> []) evs)"

text \<open>The processes that have been spawned and have neither exited nor been killed.\<close>

definition live :: "world \<Rightarrow> nat list" where
  "live w = filter (\<lambda>h. h < length (exited w) \<and> \<not> exited w ! h \<and> Killed h \<notin> set (trace w))
              (spawns (trace w))"

text \<open>The \<^verbatim>\<open>tools/call\<close> requests among the lines written (or attempted), each with its tool name and arguments.\<close>

definition tool_calls :: "event list \<Rightarrow> (string \<times> (string \<rightharpoonup> string)) list" where
  "tool_calls evs =
     concat (map (\<lambda>e. case e of
                         Wrote h r err \<Rightarrow>
                           (if req_method r = ''tools/call''
                            then (case req_params r of CallParams t a \<Rightarrow> [(t, a)] | _ \<Rightarrow> [])
                            else [])
                       | _ \<Rightarrow> []) evs)"

subsection \<open>The stages of a chat turn\<close>

text \<open>
  Names for the states a turn of \<^const>\<open>ChatMulti\<close> passes through: the bridge when the
  first call is about to be written, the first call with its outcome, the bridge after the
  forced teardown and the restart, and the second call with its outcome.
\<close>

definition turn_ready :: "world \<Rightarrow> platform \<Rightarrow> Channel \<Rightarrow> chat_env \<Rightarrow> world" where
  "turn_ready w pf ch env = touchActivity (snd (ensureStarted w pf ch (start1 env)))"

definition turn_first ::
  "world \<Rightarrow> platform \<Rightarrow> string option \<Rightarrow> Channel \<Rightarrow> string \<Rightarrow> chat_env \<Rightarrow> (error + json) \<times> world" where
  "turn_first w pf user_tag ch prompt env =
     requestForChannel (turn_ready w pf ch env) ''tools/call''
       (CallParams (fst (chat_call (turn_ready w pf ch env) user_tag ch prompt))
                   (snd (chat_call (turn_ready w pf ch env) user_tag ch prompt)))
       (ChannelID ch) (first env)"

definition turn_restart ::
  "world \<Rightarrow> platform \<Rightarrow> string option \<Rightarrow> Channel \<Rightarrow> string \<Rightarrow> chat_env \<Rightarrow> error option \<times> world" where
  "turn_restart w pf user_tag ch prompt env =
     ensureStarted (teardown (snd (turn_first w pf user_tag ch prompt env))) pf ch (start2 env)"

definition turn_second ::
  "world \<Rightarrow> platform \<Rightarrow> string option \<Rightarrow> Channel \<Rightarrow> string \<Rightarrow> chat_env \<Rightarrow> (error + json) \<times> world" where
  "turn_second w pf user_tag ch prompt env =
     requestForChannel (snd (turn_restart w pf user_tag ch prompt env)) ''tools/call''
       (CallParams (fst (chat_call (turn_ready w pf ch env) user_tag ch prompt))
                   (snd (chat_call (turn_ready w pf ch env) user_tag ch prompt)))
       (ChannelID ch) (second env)"

section \<open>The tail transport\<close>

subsection \<open>Session discovery (interactive_tail_bridge.go, lines 248 to 308)\<close>

text \<open>
  Times are nanoseconds counted from Go's zero \<^verbatim>\<open>time.Time\<close>. What \<^verbatim>\<open>filepath.WalkDir\<close>
  hands to its callback for one entry: the path, the entry's name, whether the walk
  reports an error for it, whether it is a directory, and the modification time
  \<^verbatim>\<open>d.Info()\<close> gives (\<^term>\<open>None\<close> when \<^verbatim>\<open>Info\<close> fails).
\<close>

record dirent =
  path :: string
  name :: string
  walk_err :: bool
  is_dir :: bool
  info :: "int option"

type_synonym sessionSnapshot = "string \<rightharpoonup> int"

definition is_jsonl :: "dirent \<Rightarrow> bool" where
  "is_jsonl d = suffix ''.jsonl'' (to_lower (name d))"

definition snapshot_visit :: "sessionSnapshot \<Rightarrow> dirent \<Rightarrow> sessionSnapshot" where
  "snapshot_visit snap d =
     (if walk_err d then snap
      else if is_dir d then snap
      else if \<not> is_jsonl d then snap
      else case info d of Some mt \<Rightarrow> snap(path d \<mapsto> mt) | None \<Rightarrow> snap)"

definition snapshotSessionFiles :: "dirent list \<Rightarrow> sessionSnapshot" where
  "snapshotSessionFiles entries = foldl snapshot_visit Map.empty entries"

text \<open>The callback of lines 275 to 301, on the pair \<^verbatim>\<open>(candidate, latest)\<close>.\<close>

definition visit :: "sessionSnapshot \<Rightarrow> int \<Rightarrow> string \<times> int \<Rightarrow> dirent \<Rightarrow> string \<times> int" where
  "visit before since0 cl d =
     (if walk_err d then cl
      else if is_dir d then cl
      else if \<not> is_jsonl d then cl
      else case info d of
        None \<Rightarrow> cl
      | Some mt \<Rightarrow>
          if mt < since0 + (- 2 * 1000000000) then cl
          else if (case before (path d) of Some bt \<Rightarrow> \<not> mt > bt | None \<Rightarrow> False) then cl
          else if mt > snd cl then (path d, mt)
          else cl)"

datatype tail_error =
    SessionNotFound string
  | TailTimeout
  | TailCtx string
  | TailIO string

text \<open>
  The polling loop, started at time \<open>now\<close>: \<open>fs t\<close> is what a walk of the directory sees
  at time \<open>t\<close>. A walk is taken to cost no time, a sleep 300 ms. The loop returns the file
  found together with the time of the walk that found it.
\<close>

function poll :: "(int \<Rightarrow> dirent list) \<Rightarrow> string \<Rightarrow> sessionSnapshot \<Rightarrow> int \<Rightarrow> int \<Rightarrow> int
    \<Rightarrow> (tail_error + string) \<times> int" where
  "poll fs root before since0 deadline now =
     (if now < deadline then
        (let cl = foldl (visit before since0) ([], 0) (fs now)
         in if fst cl \<noteq> [] then (Inr (fst cl), now)
            else poll fs root before since0 deadline (now + 300000000))
      else (Inl (SessionNotFound root), now))"
  by pat_completeness auto
termination
  by (relation "measure (\<lambda>(fs, root, before, since0, deadline, now). nat (deadline - now))") auto

definition waitNewSessionFileFromSnapshot ::
  "(int \<Rightarrow> dirent list) \<Rightarrow> string \<Rightarrow> sessionSnapshot \<Rightarrow> int \<Rightarrow> int \<Rightarrow> int \<Rightarrow> (tail_error + string) \<times> int" where
  "waitNewSessionFileFromSnapshot fs root before since0 timeout now =
     poll fs root before since0 (now + timeout) now"

subsection \<open>Sessions (lines 25 to 35, 82 to 86, 110 to 205)\<close>

text \<open>
  A session: its process and input pipe (named by the index of the process), and the log
  file whose tail feeds its \<^verbatim>\<open>out\<close> queue.
\<close>

record itSession =
  it_proc :: nat
  it_path :: string

datatype tail_event =
    TSpawned nat cmdline
  | TKilled nat
  | TTailing nat string
  | TWrote nat string "tail_error option"

record InteractiveTailBridge =
  t_conf :: Codex
  sessions :: "string \<rightharpoonup> itSession"
  t_clock :: int
  t_spawned :: nat
  t_trace :: "tail_event list"

definition NewInteractiveTailBridge :: "Codex \<Rightarrow> InteractiveTailBridge" where
  "NewInteractiveTailBridge c =
     \<lparr>t_conf = c, sessions = Map.empty, t_clock = 0, t_spawned = 0, t_trace = []\<rparr>"

text \<open>
  The host and what it does during \<^verbatim>\<open>ensure\<close>: the home directory (or the error of
  \<^verbatim>\<open>os.UserHomeDir\<close>), \<^verbatim>\<open>filepath.Clean\<close> and the path separator, the environment of the
  bridge's own process, the directory as walks see it over time, and whether making the
  pipes or spawning fails.
\<close>

record tail_env =
  t_windows :: bool
  home :: "tail_error + string"
  clean :: "string \<Rightarrow> string"
  separator :: string
  environ :: "string list"
  fs :: "int \<Rightarrow> dirent list"
  t_pipe_err :: "tail_error option"
  t_spawn_err :: "tail_error option"

definition waitRoot :: "InteractiveTailBridge \<Rightarrow> tail_env \<Rightarrow> tail_error + string" where
  "waitRoot b env =
     (if TrimSpace (SessionRoot (t_conf b)) \<noteq> [] then Inr (clean env (TrimSpace (SessionRoot (t_conf b))))
      else case home env of
        Inl e \<Rightarrow> Inl e
      | Inr h \<Rightarrow> Inr (clean env (h @ separator env @ ''.codex'' @ separator env @ ''sessions'')))"

definition tail_command :: "tail_env \<Rightarrow> Channel \<Rightarrow> cmdline" where
  "tail_command env ch =
     (let line = TrimSpace (ch_Command ch);
          args = (if line \<noteq> [] then
                    (if t_windows env then [''powershell'', ''-NoLogo'', ''-Command'', line]
                     else [''bash'', ''-lc'', line])
                  else [''codex'', ''-a'', ''never'', ''--sandbox'', ''workspace-write'']);
          d = (if TrimSpace (Workdir ch) \<noteq> [] then Workdir ch else []);
          e = (if length (Env ch) > 0
               then environ env @
                    map (\<lambda>k. k @ ''='' @ (case map_of (Env ch) k of Some v \<Rightarrow> v | None \<Rightarrow> []))
                      (sort (map fst (Env ch)))
               else [])
      in \<lparr>argv = args, dir = d, cmd_env = e\<rparr>)"

definition ensure :: "InteractiveTailBridge \<Rightarrow> Channel \<Rightarrow> tail_env \<Rightarrow> (tail_error + itSession) \<times> InteractiveTailBridge" where
  "ensure b ch env =
     (case sessions b (ChannelID ch) of
        Some s \<Rightarrow> (Inr s, b)
      | None \<Rightarrow>
          (case waitRoot b env of
             Inl rerr \<Rightarrow> (Inl rerr, b)
           | Inr root \<Rightarrow>
               (let before = snapshotSessionFiles (fs env (t_clock b))
                in case t_pipe_err env of
                     Some e \<Rightarrow> (Inl e, b)
                   | None \<Rightarrow>
                       (case t_spawn_err env of
                          Some e \<Rightarrow> (Inl e, b)
                        | None \<Rightarrow>
                            (let start0 = t_clock b;
                                 h = t_spawned b;
                                 b1 = b\<lparr>t_spawned := Suc h,
                                        t_trace := t_trace b @ [TSpawned h (tail_command env ch)]\<rparr>;
                                 (found, t) = waitNewSessionFileFromSnapshot (fs env) root before
                                                start0 (20 * 1000000000) (t_clock b1)
                             in case found of
                                  Inl err \<Rightarrow>
                                    (Inl err, b1\<lparr>t_clock := t, t_trace := t_trace b1 @ [TKilled h]\<rparr>)
                                | Inr sessPath \<Rightarrow>
                                    (let ns = \<lparr>it_proc = h, it_path = sessPath\<rparr>
                                     in (Inr ns,
                                         b1\<lparr>t_clock := t,
                                            t_trace := t_trace b1 @ [TTailing h sessPath],
                                            sessions := (sessions b1)(ChannelID ch \<mapsto> ns)\<rparr>)))))))"

subsection \<open>A chat turn over the tail (lines 37 to 80)\<close>

text \<open>
  The loop of lines 56 to 79 is a \<^verbatim>\<open>select\<close> over four channels. A run of it is given by
  the cases the \<^verbatim>\<open>select\<close> takes, in order, each with the time at which it is taken: the
  caller's cancellation (with \<^verbatim>\<open>ctx.Err()\<close>), the deadline timer, a message from the
  session's queue, or the idle timer. The loop's answer is \<^term>\<open>None\<close> while it is still
  waiting at the end of the cases given.
\<close>

datatype sel = SelCtx string | SelDeadline | SelMsg string | SelIdle

fun collect :: "string \<Rightarrow> (int \<times> sel) list \<Rightarrow> (tail_error + string) option" where
  "collect last0 [] = None"
| "collect last0 ((t, SelCtx e) # rest) =
     (if last0 = [] then Some (Inl (TailCtx e)) else Some (Inr last0))"
| "collect last0 ((t, SelDeadline) # rest) =
     (if last0 = [] then Some (Inl TailTimeout) else Some (Inr last0))"
| "collect last0 ((t, SelMsg m) # rest) = collect (if m \<noteq> [] then m else last0) rest"
| "collect last0 ((t, SelIdle) # rest) =
     (if last0 \<noteq> [] then Some (Inr last0) else collect last0 rest)"

text \<open>
  What Go's timers and \<^verbatim>\<open>select\<close> allow, for a loop that is at time \<open>now\<close> with the idle
  timer due at \<open>idle\<close> and the deadline timer due at \<open>dl\<close>: a \<^verbatim>\<open>select\<close> returns no
  earlier than \<open>now\<close> and no later than the moment the first timer is due; it takes a
  timer's case only when the timer is due; and taking a message or the idle case resets
  the idle timer to 1200 ms later (lines 72 and 77).
\<close>

fun allowed :: "int \<Rightarrow> int \<Rightarrow> int \<Rightarrow> (int \<times> sel) list \<Rightarrow> bool" where
  "allowed idle dl now [] = True"
| "allowed idle dl now ((t, s) # rest) =
     (now \<le> t \<and> t \<le> max now (min idle dl) \<and>
      (case s of
         SelCtx e \<Rightarrow> True
       | SelDeadline \<Rightarrow> dl \<le> t
       | SelMsg m \<Rightarrow> allowed (t + 1200 * 1000000) dl t rest
       | SelIdle \<Rightarrow> idle \<le> t \<and> allowed (t + 1200 * 1000000) dl t rest))"

definition chat_deadline :: "Codex \<Rightarrow> int \<Rightarrow> int" where
  "chat_deadline c now =
     (let to = TimeoutSeconds c in now + seconds (if to \<le> 0 then 180 else to))"

record tchat_env =
  ensure_env :: tail_env
  t_write_err :: "tail_error option"
  selects :: "(int \<times> sel) list"

definition Chat_tail ::
  "InteractiveTailBridge \<Rightarrow> Channel \<Rightarrow> string \<Rightarrow> tchat_env \<Rightarrow> (tail_error + string) option \<times> InteractiveTailBridge" where
  "Chat_tail b ch prompt env =
     (case ensure b ch (ensure_env env) of
        (Inl err, b1) \<Rightarrow> (Some (Inl err), b1)
      | (Inr s, b1) \<Rightarrow>
          (let b2 = b1\<lparr>t_trace := t_trace b1 @
                        [TWrote (it_proc s) (TrimSpace prompt @ [CHR 0x0A]) (t_write_err env)]\<rparr>
           in case t_write_err env of
                Some err \<Rightarrow> (Some (Inl err), b2)
              | None \<Rightarrow> (collect [] (selects env), b2)))"

section \<open>Concrete bridges, channels and surroundings\<close>

text \<open>
  A bridge with an empty configuration, the channel \<open>C\<close>, a POSIX host on which
  \<^verbatim>\<open>codex\<close> is not on the path, and surroundings in which the process starts, leaves
  \<^verbatim>\<open>initialize\<close> unanswered, and answers the request with a given id by a given result.
\<close>

definition conf0 :: Codex where
  "conf0 = \<lparr>Command = [], SessionRoot = [], TimeoutSeconds = 0, Debug = False,
            IdleSeconds = 0, Preamble = []\<rparr>"

definition chanC :: Channel where
  "chanC = \<lparr>ChannelID = ''C'', ch_Command = [], Workdir = [], Env = []\<rparr>"

definition host0 :: platform where
  "host0 = \<lparr>windows = False, look_path = None\<rparr>"

definition no_reply :: req_env where
  "no_reply = \<lparr>write_err = None, arrivals = [], resp_first = True,
               wake_by = CtxDone ''context deadline exceeded''\<rparr>"

definition start_ok :: start_env where
  "start_ok = \<lparr>pipe_err = None, spawn_err = None, init_env = no_reply, inited_err = None\<rparr>"

definition reply_with :: "int \<Rightarrow> json \<Rightarrow> req_env" where
  "reply_with i res =
     \<lparr>write_err = None, arrivals = [(0, Some (JObj [(''id'', JNum i), (''result'', res)]))],
      resp_first = True, wake_by = TimedOut\<rparr>"

definition turn_ok :: "int \<Rightarrow> json \<Rightarrow> chat_env" where
  "turn_ok i res = \<lparr>start1 = start_ok, first = reply_with i res, start2 = start_ok, second = no_reply\<rparr>"

text \<open>The result of the scenario: a conversation id and a text.\<close>

definition listing_result :: json where
  "listing_result = JObj [(''conversationId'', JStr ''abc123''), (''content'', JStr ''a.txt b.txt'')]"

text \<open>The bridge after owner \<open>C\<close> has sent \<open>list files\<close> and got that result back.\<close>

definition after_listing :: "string option \<Rightarrow> world" where
  "after_listing user_tag =
     snd (ChatMulti (NewMCPBridge conf0 False) host0 user_tag chanC ''list files''
            (turn_ok 2 listing_result))"



text \<open>Surroundings in which the write of a request fails, and in which no process can be spawned.\<close>

definition write_fails :: "string \<Rightarrow> req_env" where
  "write_fails msg = \<lparr>write_err = Some (WriteError msg), arrivals = [], resp_first = True,
                      wake_by = TimedOut\<rparr>"

definition start_fails :: start_env where
  "start_fails = \<lparr>pipe_err = None, spawn_err = Some (StartError ''exec: codex: not found''),
                  init_env = no_reply, inited_err = None\<rparr>"

text \<open>Two callers of \<^verbatim>\<open>ensureStarted\<close> on a fresh bridge, each about to make the test.\<close>

definition two_callers :: callers where
  "two_callers = \<lparr>shared = NewMCPBridge conf0 False, pcs = [AtCheck, AtCheck]\<rparr>"

text \<open>
  A bridge with an idle threshold of 10 seconds, started at time 0, and a notification
  that is not a \<^verbatim>\<open>codex/event\<close>.
\<close>

definition idle_bridge :: world where
  "idle_bridge = snd (ensureStarted (NewMCPBridge (conf0\<lparr>IdleSeconds := 10\<rparr>) False) host0 chanC start_ok)"

definition progress_note :: json where
  "progress_note = JObj [(''jsonrpc'', JStr ''2.0''), (''method'', JStr ''notifications/progress''),
                         (''params'', JObj [(''progress'', JNum 1)])]"

definition event_note :: json where
  "event_note = JObj [(''jsonrpc'', JStr ''2.0''), (''method'', JStr ''codex/event''),
                      (''params'', JObj [(''msg'', JObj [(''type'', JStr ''token_count'')])])]"




section \<open>What each operation leaves alone\<close>

lemma emit_frame:
  "conf (emit w e) = conf w"
  "convo (emit w e) = convo w"
  "idleSeconds (emit w e) = idleSeconds w"
  "cmd (emit w e) = cmd w"
  "stdin (emit w e) = stdin w"
  "ready (emit w e) = ready w"
  "deadCh (emit w e) = deadCh w"
  "exited (emit w e) = exited w"
  "owners (emit w e) = owners w"
  "reqID (emit w e) = reqID w"
  "clock (emit w e) = clock w"
  "pending (emit w e) = pending w"
  "chans (emit w e) = chans w"
  "blocked (emit w e) = blocked w"
  "idleTimer (emit w e) = idleTimer w"
  "lastActive (emit w e) = lastActive w"
  "reasonBuf (emit w e) = reasonBuf w"
  by (simp_all add: emit_def)

lemma touchActivity_frame:
  "conf (touchActivity w) = conf w"
  "convo (touchActivity w) = convo w"
  "idleSeconds (touchActivity w) = idleSeconds w"
  "cmd (touchActivity w) = cmd w"
  "stdin (touchActivity w) = stdin w"
  "ready (touchActivity w) = ready w"
  "deadCh (touchActivity w) = deadCh w"
  "exited (touchActivity w) = exited w"
  "owners (touchActivity w) = owners w"
  "reqID (touchActivity w) = reqID w"
  "clock (touchActivity w) = clock w"
  "pending (touchActivity w) = pending w"
  "chans (touchActivity w) = chans w"
  "blocked (touchActivity w) = blocked w"
  "trace (touchActivity w) = trace w"
  "reasonBuf (touchActivity w) = reasonBuf w"
  by (simp_all add: touchActivity_def)

lemma end_reasoning_frame:
  "conf (end_reasoning w meta ow) = conf w"
  "convo (end_reasoning w meta ow) = convo w"
  "idleSeconds (end_reasoning w meta ow) = idleSeconds w"
  "cmd (end_reasoning w meta ow) = cmd w"
  "stdin (end_reasoning w meta ow) = stdin w"
  "ready (end_reasoning w meta ow) = ready w"
  "deadCh (end_reasoning w meta ow) = deadCh w"
  "exited (end_reasoning w meta ow) = exited w"
  "owners (end_reasoning w meta ow) = owners w"
  "reqID (end_reasoning w meta ow) = reqID w"
  "clock (end_reasoning w meta ow) = clock w"
  "pending (end_reasoning w meta ow) = pending w"
  "chans (end_reasoning w meta ow) = chans w"
  "blocked (end_reasoning w meta ow) = blocked w"
  "idleTimer (end_reasoning w meta ow) = idleTimer w"
  "lastActive (end_reasoning w meta ow) = lastActive w"
  by (simp_all add: end_reasoning_def Let_def emit_frame)

lemma handleNotify_frame:
  "conf (handleNotify w raw) = conf w"
  "convo (handleNotify w raw) = convo w"
  "idleSeconds (handleNotify w raw) = idleSeconds w"
  "cmd (handleNotify w raw) = cmd w"
  "stdin (handleNotify w raw) = stdin w"
  "ready (handleNotify w raw) = ready w"
  "deadCh (handleNotify w raw) = deadCh w"
  "exited (handleNotify w raw) = exited w"
  "owners (handleNotify w raw) = owners w"
  "reqID (handleNotify w raw) = reqID w"
  "clock (handleNotify w raw) = clock w"
  "pending (handleNotify w raw) = pending w"
  "chans (handleNotify w raw) = chans w"
  "blocked (handleNotify w raw) = blocked w"
  by (simp_all add: handleNotify_def Let_def end_reasoning_frame emit_frame touchActivity_frame)

lemma deliver_frame:
  "conf (deliver w i v) = conf w"
  "convo (deliver w i v) = convo w"
  "idleSeconds (deliver w i v) = idleSeconds w"
  "cmd (deliver w i v) = cmd w"
  "stdin (deliver w i v) = stdin w"
  "ready (deliver w i v) = ready w"
  "deadCh (deliver w i v) = deadCh w"
  "exited (deliver w i v) = exited w"
  "owners (deliver w i v) = owners w"
  "reqID (deliver w i v) = reqID w"
  "clock (deliver w i v) = clock w"
  "trace (deliver w i v) = trace w"
  "idleTimer (deliver w i v) = idleTimer w"
  "lastActive (deliver w i v) = lastActive w"
  "reasonBuf (deliver w i v) = reasonBuf w"
  by (simp_all add: deliver_def Let_def split: option.split)

lemma respond_frame:
  "conf (respond w i raw) = conf w"
  "convo (respond w i raw) = convo w"
  "idleSeconds (respond w i raw) = idleSeconds w"
  "cmd (respond w i raw) = cmd w"
  "stdin (respond w i raw) = stdin w"
  "ready (respond w i raw) = ready w"
  "deadCh (respond w i raw) = deadCh w"
  "exited (respond w i raw) = exited w"
  "owners (respond w i raw) = owners w"
  "reqID (respond w i raw) = reqID w"
  "clock (respond w i raw) = clock w"
  "trace (respond w i raw) = trace w"
  "idleTimer (respond w i raw) = idleTimer w"
  "lastActive (respond w i raw) = lastActive w"
  "reasonBuf (respond w i raw) = reasonBuf w"
  by (simp_all add: respond_def deliver_frame split: option.split)

lemma handleLine_frame:
  "conf (handleLine w line) = conf w"
  "convo (handleLine w line) = convo w"
  "idleSeconds (handleLine w line) = idleSeconds w"
  "cmd (handleLine w line) = cmd w"
  "stdin (handleLine w line) = stdin w"
  "ready (handleLine w line) = ready w"
  "deadCh (handleLine w line) = deadCh w"
  "exited (handleLine w line) = exited w"
  "owners (handleLine w line) = owners w"
  "reqID (handleLine w line) = reqID w"
  "clock (handleLine w line) = clock w"
  by (simp_all add: handleLine_def respond_frame handleNotify_frame split: option.split json.split sum.split)

lemma readArrivals_conf: "conf (readArrivals w as) = conf w"
  by (induction w as rule: readArrivals.induct) (simp_all add: handleLine_frame)

lemma readArrivals_convo: "convo (readArrivals w as) = convo w"
  by (induction w as rule: readArrivals.induct) (simp_all add: handleLine_frame)

lemma readArrivals_idleSeconds: "idleSeconds (readArrivals w as) = idleSeconds w"
  by (induction w as rule: readArrivals.induct) (simp_all add: handleLine_frame)

lemma readArrivals_cmd: "cmd (readArrivals w as) = cmd w"
  by (induction w as rule: readArrivals.induct) (simp_all add: handleLine_frame)

lemma readArrivals_stdin: "stdin (readArrivals w as) = stdin w"
  by (induction w as rule: readArrivals.induct) (simp_all add: handleLine_frame)

lemma readArrivals_ready: "ready (readArrivals w as) = ready w"
  by (induction w as rule: readArrivals.induct) (simp_all add: handleLine_frame)

lemma readArrivals_deadCh: "deadCh (readArrivals w as) = deadCh w"
  by (induction w as rule: readArrivals.induct) (simp_all add: handleLine_frame)

lemma readArrivals_exited: "exited (readArrivals w as) = exited w"
  by (induction w as rule: readArrivals.induct) (simp_all add: handleLine_frame)

lemma readArrivals_owners: "owners (readArrivals w as) = owners w"
  by (induction w as rule: readArrivals.induct) (simp_all add: handleLine_frame)

lemma readArrivals_reqID: "reqID (readArrivals w as) = reqID w"
  by (induction w as rule: readArrivals.induct) (simp_all add: handleLine_frame)

lemmas readArrivals_frame =
  readArrivals_conf readArrivals_convo readArrivals_idleSeconds readArrivals_cmd readArrivals_stdin readArrivals_ready readArrivals_deadCh readArrivals_exited readArrivals_owners readArrivals_reqID

lemma write_line_frame:
  "conf (snd (write_line w r err)) = conf w"
  "convo (snd (write_line w r err)) = convo w"
  "idleSeconds (snd (write_line w r err)) = idleSeconds w"
  "cmd (snd (write_line w r err)) = cmd w"
  "stdin (snd (write_line w r err)) = stdin w"
  "ready (snd (write_line w r err)) = ready w"
  "deadCh (snd (write_line w r err)) = deadCh w"
  "exited (snd (write_line w r err)) = exited w"
  "owners (snd (write_line w r err)) = owners w"
  "reqID (snd (write_line w r err)) = reqID w"
  "clock (snd (write_line w r err)) = clock w"
  "pending (snd (write_line w r err)) = pending w"
  "chans (snd (write_line w r err)) = chans w"
  "blocked (snd (write_line w r err)) = blocked w"
  "idleTimer (snd (write_line w r err)) = idleTimer w"
  "lastActive (snd (write_line w r err)) = lastActive w"
  "reasonBuf (snd (write_line w r err)) = reasonBuf w"
  by (simp_all add: write_line_def emit_frame split: option.split)

lemma await_frame:
  "conf (snd (await w c t0 env)) = conf w"
  "convo (snd (await w c t0 env)) = convo w"
  "idleSeconds (snd (await w c t0 env)) = idleSeconds w"
  "cmd (snd (await w c t0 env)) = cmd w"
  "stdin (snd (await w c t0 env)) = stdin w"
  "ready (snd (await w c t0 env)) = ready w"
  "deadCh (snd (await w c t0 env)) = deadCh w"
  "exited (snd (await w c t0 env)) = exited w"
  "owners (snd (await w c t0 env)) = owners w"
  "reqID (snd (await w c t0 env)) = reqID w"
  by (simp_all add: await_def Let_def readArrivals_frame split: wake.split)

lemma request_frame:
  "conf (snd (request w method ps env)) = conf w"
  "convo (snd (request w method ps env)) = convo w"
  "idleSeconds (snd (request w method ps env)) = idleSeconds w"
  "cmd (snd (request w method ps env)) = cmd w"
  "stdin (snd (request w method ps env)) = stdin w"
  "ready (snd (request w method ps env)) = ready w"
  "deadCh (snd (request w method ps env)) = deadCh w"
  "exited (snd (request w method ps env)) = exited w"
  "owners (snd (request w method ps env)) = owners w"
  by (simp_all add: request_def Let_def case_prod_beta await_frame write_line_frame split: option.split)

lemma requestForChannel_frame:
  "conf (snd (requestForChannel w method ps channelID env)) = conf w"
  "convo (snd (requestForChannel w method ps channelID env)) = convo w"
  "idleSeconds (snd (requestForChannel w method ps channelID env)) = idleSeconds w"
  "cmd (snd (requestForChannel w method ps channelID env)) = cmd w"
  "stdin (snd (requestForChannel w method ps channelID env)) = stdin w"
  "ready (snd (requestForChannel w method ps channelID env)) = ready w"
  "deadCh (snd (requestForChannel w method ps channelID env)) = deadCh w"
  "exited (snd (requestForChannel w method ps channelID env)) = exited w"
  by (simp_all add: requestForChannel_def Let_def case_prod_beta await_frame write_line_frame split: option.split)

lemma notify_frame:
  "conf (snd (notify w method ps err)) = conf w"
  "convo (snd (notify w method ps err)) = convo w"
  "idleSeconds (snd (notify w method ps err)) = idleSeconds w"
  "cmd (snd (notify w method ps err)) = cmd w"
  "stdin (snd (notify w method ps err)) = stdin w"
  "ready (snd (notify w method ps err)) = ready w"
  "deadCh (snd (notify w method ps err)) = deadCh w"
  "exited (snd (notify w method ps err)) = exited w"
  "owners (snd (notify w method ps err)) = owners w"
  "reqID (snd (notify w method ps err)) = reqID w"
  "clock (snd (notify w method ps err)) = clock w"
  "pending (snd (notify w method ps err)) = pending w"
  "chans (snd (notify w method ps err)) = chans w"
  "blocked (snd (notify w method ps err)) = blocked w"
  "idleTimer (snd (notify w method ps err)) = idleTimer w"
  "lastActive (snd (notify w method ps err)) = lastActive w"
  "reasonBuf (snd (notify w method ps err)) = reasonBuf w"
  by (simp_all add: notify_def write_line_frame)

lemma start_frame:
  "conf (snd (start w pf ch env)) = conf w"
  "convo (snd (start w pf ch env)) = convo w"
  "idleSeconds (snd (start w pf ch env)) = idleSeconds w"
  "owners (snd (start w pf ch env)) = owners w"
  by (simp_all add: start_def Let_def touchActivity_frame emit_frame notify_frame request_frame split: option.split)

lemma ensureStarted_frame:
  "conf (snd (ensureStarted w pf ch env)) = conf w"
  "convo (snd (ensureStarted w pf ch env)) = convo w"
  "idleSeconds (snd (ensureStarted w pf ch env)) = idleSeconds w"
  "owners (snd (ensureStarted w pf ch env)) = owners w"
  by (simp_all add: ensureStarted_def start_frame)

lemma teardown_frame:
  "conf (teardown w) = conf w"
  "convo (teardown w) = convo w"
  "idleSeconds (teardown w) = idleSeconds w"
  "cmd (teardown w) = cmd w"
  "deadCh (teardown w) = deadCh w"
  "exited (teardown w) = exited w"
  "owners (teardown w) = owners w"
  "reqID (teardown w) = reqID w"
  "clock (teardown w) = clock w"
  "chans (teardown w) = chans w"
  "blocked (teardown w) = blocked w"
  "idleTimer (teardown w) = idleTimer w"
  "lastActive (teardown w) = lastActive w"
  "reasonBuf (teardown w) = reasonBuf w"
  by (simp_all add: teardown_def Let_def emit_frame split: option.split)

lemma bind_result_frame:
  "conf (bind_result w ch res) = conf w"
  "idleSeconds (bind_result w ch res) = idleSeconds w"
  "cmd (bind_result w ch res) = cmd w"
  "stdin (bind_result w ch res) = stdin w"
  "ready (bind_result w ch res) = ready w"
  "deadCh (bind_result w ch res) = deadCh w"
  "exited (bind_result w ch res) = exited w"
  "owners (bind_result w ch res) = owners w"
  "reqID (bind_result w ch res) = reqID w"
  "clock (bind_result w ch res) = clock w"
  "pending (bind_result w ch res) = pending w"
  "chans (bind_result w ch res) = chans w"
  "blocked (bind_result w ch res) = blocked w"
  "trace (bind_result w ch res) = trace w"
  "reasonBuf (bind_result w ch res) = reasonBuf w"
  by (simp_all add: bind_result_def Let_def touchActivity_frame split: option.split json.split)

section \<open>What each operation writes and spawns\<close>

lemma tool_calls_append [simp]: "tool_calls (a @ b) = tool_calls a @ tool_calls b"
  by (simp add: tool_calls_def)

lemma spawns_append [simp]: "spawns (a @ b) = spawns a @ spawns b"
  by (simp add: spawns_def)

lemma tool_calls_Nil [simp]: "tool_calls [] = []"
  by (simp add: tool_calls_def)

lemma spawns_Nil [simp]: "spawns [] = []"
  by (simp add: spawns_def)

lemma tool_calls_single:
  "tool_calls [e] = (case e of
                         Wrote h r err \<Rightarrow>
                           (if req_method r = ''tools/call''
                            then (case req_params r of CallParams t a \<Rightarrow> [(t, a)] | _ \<Rightarrow> [])
                            else [])
                       | _ \<Rightarrow> [])"
  by (simp add: tool_calls_def)

lemma spawns_single: "spawns [e] = (case e of Spawned h c \<Rightarrow> [h] | _ \<Rightarrow> [])"
  by (simp add: spawns_def)

lemma trace_emit: "trace (emit w e) = trace w @ [e]"
  by (simp add: emit_def)

lemma end_reasoning_quiet:
  "tool_calls (trace (end_reasoning w meta ow)) = tool_calls (trace w)"
  "spawns (trace (end_reasoning w meta ow)) = spawns (trace w)"
  by (simp_all add: end_reasoning_def Let_def trace_emit tool_calls_single spawns_single)

lemma handleNotify_quiet:
  "tool_calls (trace (handleNotify w raw)) = tool_calls (trace w)"
  "spawns (trace (handleNotify w raw)) = spawns (trace w)"
  by (simp_all add: handleNotify_def Let_def end_reasoning_quiet trace_emit tool_calls_single
        spawns_single touchActivity_frame)

lemma handleLine_quiet:
  "tool_calls (trace (handleLine w line)) = tool_calls (trace w)"
  "spawns (trace (handleLine w line)) = spawns (trace w)"
  by (simp_all add: handleLine_def respond_frame handleNotify_quiet
        split: option.split json.split sum.split)

lemma readArrivals_calls: "tool_calls (trace (readArrivals w as)) = tool_calls (trace w)"
  by (induction w as rule: readArrivals.induct) (simp_all add: handleLine_quiet)

lemma readArrivals_spawns: "spawns (trace (readArrivals w as)) = spawns (trace w)"
  by (induction w as rule: readArrivals.induct) (simp_all add: handleLine_quiet)

lemma await_quiet:
  "tool_calls (trace (snd (await w c t0 env))) = tool_calls (trace w)"
  "spawns (trace (snd (await w c t0 env))) = spawns (trace w)"
  by (simp_all add: await_def Let_def readArrivals_calls readArrivals_spawns split: wake.split)

lemma write_line_trace:
  "trace (snd (write_line w r err)) = trace w @ (case stdin w of None \<Rightarrow> [] | Some h \<Rightarrow> [Wrote h r err])"
  by (simp add: write_line_def trace_emit split: option.split)

lemma write_line_result:
  "fst (write_line w r err) = (case stdin w of None \<Rightarrow> Some NilStdin | Some h \<Rightarrow> err)"
  by (simp add: write_line_def split: option.split)

lemma request_spawns: "spawns (trace (snd (request w method ps env))) = spawns (trace w)"
  by (simp add: request_def Let_def case_prod_beta await_quiet write_line_trace spawns_single
        split: option.split)

lemma request_calls:
  "method \<noteq> ''tools/call'' \<Longrightarrow>
   tool_calls (trace (snd (request w method ps env))) = tool_calls (trace w)"
  by (simp add: request_def Let_def case_prod_beta await_quiet write_line_trace tool_calls_single
        split: option.split)

lemma notify_quiet:
  "method \<noteq> ''tools/call'' \<Longrightarrow>
   tool_calls (trace (snd (notify w method ps err))) = tool_calls (trace w)"
  "spawns (trace (snd (notify w method ps err))) = spawns (trace w)"
  by (simp_all add: notify_def write_line_trace tool_calls_single spawns_single split: option.split)

lemma requestForChannel_spawns:
  "spawns (trace (snd (requestForChannel w method ps channelID env))) = spawns (trace w)"
  by (simp add: requestForChannel_def Let_def case_prod_beta await_quiet write_line_trace
        spawns_single split: option.split)

lemma requestForChannel_calls:
  "tool_calls (trace (snd (requestForChannel w ''tools/call'' (CallParams t a) channelID env))) =
     tool_calls (trace w) @ (if stdin w = None then [] else [(t, a)])"
  by (simp add: requestForChannel_def Let_def case_prod_beta await_quiet write_line_trace
        tool_calls_single split: option.split)

lemma start_calls: "tool_calls (trace (snd (start w pf ch env))) = tool_calls (trace w)"
  by (simp add: start_def Let_def touchActivity_frame trace_emit notify_quiet request_calls
        tool_calls_single split: option.split)

lemma start_spawns:
  "spawns (trace (snd (start w pf ch env))) =
     spawns (trace w) @ (if pipe_err env = None \<and> spawn_err env = None then [length (exited w)] else [])"
  by (simp add: start_def Let_def touchActivity_frame trace_emit notify_quiet request_spawns
        spawns_single split: option.split)

lemma start_result:
  "fst (start w pf ch env) = (case pipe_err env of Some e \<Rightarrow> Some e | None \<Rightarrow> spawn_err env)"
  by (simp add: start_def Let_def split: option.split)

lemma ensureStarted_calls:
  "tool_calls (trace (snd (ensureStarted w pf ch env))) = tool_calls (trace w)"
  by (simp add: ensureStarted_def start_calls)

lemma teardown_quiet:
  "tool_calls (trace (teardown w)) = tool_calls (trace w)"
  "spawns (trace (teardown w)) = spawns (trace w)"
  by (simp_all add: teardown_def Let_def trace_emit emit_frame tool_calls_single spawns_single
        split: option.split)

section \<open>A chat turn, stage by stage\<close>

lemma ChatMulti_stages:
  "ChatMulti w pf user_tag ch prompt env =
     (case fst (ensureStarted w pf ch (start1 env)) of
        Some e \<Rightarrow> (Inl e, snd (ensureStarted w pf ch (start1 env)))
      | None \<Rightarrow>
          (case fst (turn_first w pf user_tag ch prompt env) of
             Inr res \<Rightarrow> (Inr res, bind_result (snd (turn_first w pf user_tag ch prompt env)) ch res)
           | Inl err \<Rightarrow>
               if err = NilStdin then (Inl NilStdin, snd (turn_first w pf user_tag ch prompt env))
               else (case fst (turn_restart w pf user_tag ch prompt env) of
                       Some e \<Rightarrow> (Inl err, snd (turn_restart w pf user_tag ch prompt env))
                     | None \<Rightarrow>
                         (case fst (turn_second w pf user_tag ch prompt env) of
                            Inr res \<Rightarrow> (Inr res, bind_result (snd (turn_second w pf user_tag ch prompt env)) ch res)
                          | Inl err2 \<Rightarrow> (Inl err2, snd (turn_second w pf user_tag ch prompt env))))))"
  unfolding ChatMulti_def turn_first_def turn_restart_def turn_second_def turn_ready_def
  by (simp add: Let_def case_prod_beta split: prod.split option.split sum.split error.split)

lemma chat_call_cong:
  "convo w' = convo w \<Longrightarrow> conf w' = conf w \<Longrightarrow>
   chat_call w' user_tag ch prompt = chat_call w user_tag ch prompt"
  by (simp add: chat_call_def Let_def split: option.split)

lemma turn_ready_frame:
  "convo (turn_ready w pf ch env) = convo w"
  "conf (turn_ready w pf ch env) = conf w"
  "idleSeconds (turn_ready w pf ch env) = idleSeconds w"
  "tool_calls (trace (turn_ready w pf ch env)) = tool_calls (trace w)"
  by (simp_all add: turn_ready_def touchActivity_frame ensureStarted_frame ensureStarted_calls)

lemma turn_ready_call:
  "chat_call (turn_ready w pf ch env) user_tag ch prompt = chat_call w user_tag ch prompt"
  by (rule chat_call_cong) (simp_all add: turn_ready_frame)

lemma turn_first_frame:
  "convo (snd (turn_first w pf user_tag ch prompt env)) = convo w"
  "conf (snd (turn_first w pf user_tag ch prompt env)) = conf w"
  "idleSeconds (snd (turn_first w pf user_tag ch prompt env)) = idleSeconds w"
  by (simp_all add: turn_first_def requestForChannel_frame turn_ready_frame)

lemma turn_first_calls:
  "tool_calls (trace (snd (turn_first w pf user_tag ch prompt env))) =
     tool_calls (trace w) @
       (if stdin (turn_ready w pf ch env) = None then [] else [chat_call w user_tag ch prompt])"
  by (simp add: turn_first_def requestForChannel_calls turn_ready_frame turn_ready_call)

lemma turn_restart_frame:
  "convo (snd (turn_restart w pf user_tag ch prompt env)) = convo w"
  "conf (snd (turn_restart w pf user_tag ch prompt env)) = conf w"
  "idleSeconds (snd (turn_restart w pf user_tag ch prompt env)) = idleSeconds w"
  by (simp_all add: turn_restart_def ensureStarted_frame teardown_frame turn_first_frame)

lemma turn_restart_calls:
  "tool_calls (trace (snd (turn_restart w pf user_tag ch prompt env))) =
     tool_calls (trace (snd (turn_first w pf user_tag ch prompt env)))"
  by (simp add: turn_restart_def ensureStarted_calls teardown_quiet)

lemma turn_second_frame:
  "convo (snd (turn_second w pf user_tag ch prompt env)) = convo w"
  "conf (snd (turn_second w pf user_tag ch prompt env)) = conf w"
  "idleSeconds (snd (turn_second w pf user_tag ch prompt env)) = idleSeconds w"
  by (simp_all add: turn_second_def requestForChannel_frame turn_restart_frame)

lemma turn_second_calls:
  "tool_calls (trace (snd (turn_second w pf user_tag ch prompt env))) =
     tool_calls (trace (snd (turn_first w pf user_tag ch prompt env))) @
       (if stdin (snd (turn_restart w pf user_tag ch prompt env)) = None then []
        else [chat_call w user_tag ch prompt])"
  by (simp add: turn_second_def requestForChannel_calls turn_restart_calls turn_ready_call)



text \<open>The definitions a run on concrete data unfolds.\<close>

lemmas eval_defs = conf0_def chanC_def host0_def no_reply_def start_ok_def reply_with_def turn_ok_def
  listing_result_def after_listing_def
  NewMCPBridge_def ChatMulti_def ensureStarted_def already_def isDead_def start_def request_def
  requestForChannel_def write_line_def await_def notify_def emit_def touchActivity_def
  chat_call_def bind_result_def handleLine_def respond_def deliver_def unmarshal_map_def
  field_def as_string_def as_map_def build_command_def TrimSpace_def chan_at_def buffered_def
  teardown_def Reset_def Let_def

section \<open>The trace only grows\<close>

lemma emit_grows: "prefix (trace w) (trace (emit w e))"
  by (simp add: emit_def)

lemma end_reasoning_grows: "prefix (trace w) (trace (end_reasoning w meta ow))"
  by (simp add: end_reasoning_def Let_def trace_emit)

lemma handleNotify_grows: "prefix (trace w) (trace (handleNotify w raw))"
proof -
  have a: "prefix (trace w) (trace (end_reasoning (touchActivity w) meta ow))" for meta ow
    using end_reasoning_grows [of "touchActivity w" meta ow] by (simp add: touchActivity_frame)
  have b: "prefix (trace w) (trace (end_reasoning (emit (touchActivity w) e) meta ow))" for meta ow e
    using end_reasoning_grows [of "emit (touchActivity w) e" meta ow]
    by (simp add: touchActivity_frame trace_emit append_prefixD)
  show ?thesis
    by (simp add: handleNotify_def Let_def a b trace_emit touchActivity_frame)
qed

lemma handleLine_grows: "prefix (trace w) (trace (handleLine w line))"
  by (simp add: handleLine_def respond_frame handleNotify_grows
        split: option.split json.split sum.split)

lemma readArrivals_grows: "prefix (trace w) (trace (readArrivals w as))"
proof (induction w as rule: readArrivals.induct)
  case (1 w)
  then show ?case by simp
next
  case (2 w dt line rest)
  have "prefix (trace w) (trace (handleLine (w\<lparr>clock := clock w + int dt\<rparr>) line))"
    using handleLine_grows [of "w\<lparr>clock := clock w + int dt\<rparr>" line] by simp
  with 2 show ?case by (auto intro: prefix_order.trans)
qed

lemma await_grows: "prefix (trace w) (trace (snd (await w c t0 env)))"
  by (simp add: await_def Let_def readArrivals_grows split: wake.split)

lemma write_line_grows: "prefix (trace w) (trace (snd (write_line w r err)))"
  by (simp add: write_line_trace)

lemma send_grows:
  assumes "trace w1 = trace w"
  shows "prefix (trace w) (trace (snd (write_line w1 r e)))"
    and "prefix (trace w) (trace (snd (await (snd (write_line w1 r e)) c t0 env)))"
proof -
  show a: "prefix (trace w) (trace (snd (write_line w1 r e)))"
    using write_line_grows [of w1 r e] assms by simp
  show "prefix (trace w) (trace (snd (await (snd (write_line w1 r e)) c t0 env)))"
    using a await_grows [of "snd (write_line w1 r e)" c t0 env] by (rule prefix_order.trans)
qed

lemma request_grows: "prefix (trace w) (trace (snd (request w method ps env)))"
  by (simp add: request_def Let_def case_prod_beta send_grows split: option.split)

lemma requestForChannel_grows:
  "prefix (trace w) (trace (snd (requestForChannel w method ps channelID env)))"
  by (simp add: requestForChannel_def Let_def case_prod_beta send_grows split: option.split)

lemma notify_grows: "prefix (trace w) (trace (snd (notify w method ps err)))"
  by (simp add: notify_def write_line_grows)

lemma start_grows: "prefix (trace w) (trace (snd (start w pf ch env)))"
proof -
  let ?w1 = "emit (w\<lparr>cmd := Some (length (exited w)), stdin := Some (length (exited w)),
                        deadCh := Some (length (exited w)), exited := exited w @ [False]\<rparr>)
               (Spawned (length (exited w)) (build_command pf (conf w) ch))"
  let ?w2 = "snd (request ?w1 ''initialize'' InitParams (init_env env))"
  let ?w3 = "snd (notify ?w2 ''initialized'' NoParams (inited_err env))"
  have a: "prefix (trace w) (trace ?w1)" by (simp add: trace_emit)
  have b: "prefix (trace ?w1) (trace ?w2)" by (rule request_grows)
  have c: "prefix (trace ?w2) (trace ?w3)" by (rule notify_grows)
  have d: "prefix (trace w) (trace ?w3)"
    using a b c by (blast intro: prefix_order.trans)
  then have e: "prefix (trace w) (trace ?w3 @ [OnUp])"
    by (simp add: prefix_prefix)
  show ?thesis
    using d e by (simp add: start_def Let_def touchActivity_frame trace_emit split: option.split)
qed

lemma ensureStarted_grows: "prefix (trace w) (trace (snd (ensureStarted w pf ch env)))"
  by (simp add: ensureStarted_def start_grows)

section \<open>The tool and the arguments of a chat turn\<close>












section \<open>Resetting a conversation\<close>








section \<open>Restart and retry after a failed write\<close>

lemma teardown_not_already: "\<not> already (teardown w)"
  by (simp add: already_def teardown_def Let_def)

lemma teardown_session:
  assumes "stdin w = Some h" and "cmd w = Some h"
  shows "stdin (teardown w) = None" and "\<not> ready (teardown w)"
    and "pending (teardown w) = Map.empty"
    and "trace (teardown w) = trace w @ [StdinClosed h, Killed h]"
  using assms by (simp_all add: teardown_def Let_def emit_def)

lemma start_succeeds:
  assumes "pipe_err env = None" and "spawn_err env = None"
  shows "fst (start w pf ch env) = None"
    and "stdin (snd (start w pf ch env)) = Some (length (exited w))"
    and "cmd (snd (start w pf ch env)) = Some (length (exited w))"
    and "ready (snd (start w pf ch env))"
    and "deadCh (snd (start w pf ch env)) = Some (length (exited w))"
    and "exited (snd (start w pf ch env)) = exited w @ [False]"
  using assms
  by (simp_all add: start_def Let_def touchActivity_frame notify_frame request_frame emit_frame)

lemma start_fails_same:
  assumes "pipe_err env \<noteq> None \<or> spawn_err env \<noteq> None"
  shows "fst (start w pf ch env) \<noteq> None" and "snd (start w pf ch env) = w"
  using assms by (auto simp: start_def split: option.splits)

lemma requestForChannel_write_fails:
  assumes "stdin w = Some h" and "write_err env = Some e"
  shows "fst (requestForChannel w method ps channelID env) = Inl e"
  using assms by (simp add: requestForChannel_def Let_def case_prod_beta write_line_def)

text \<open>
  Claim C3, as it stands, has the bridge retry the request exactly once after every failed
  first write. The retry is made only if the restart succeeds (line 896): when the process
  cannot be spawned again, the request is written once in all, and the caller gets the
  error of the first write.
\<close>

theorem retry_without_restart_counterexample:
  "fst (ChatMulti (NewMCPBridge conf0 False) host0 None chanC ''list files''
          \<lparr>start1 = start_ok, first = write_fails ''broken pipe'', start2 = start_fails,
            second = no_reply\<rparr>) = Inl (WriteError ''broken pipe'')
   \<and> length (tool_calls (trace (snd (ChatMulti (NewMCPBridge conf0 False) host0 None chanC ''list files''
          \<lparr>start1 = start_ok, first = write_fails ''broken pipe'', start2 = start_fails,
            second = no_reply\<rparr>)))) = 1
   \<and> spawns (trace (snd (ChatMulti (NewMCPBridge conf0 False) host0 None chanC ''list files''
          \<lparr>start1 = start_ok, first = write_fails ''broken pipe'', start2 = start_fails,
            second = no_reply\<rparr>))) = [0]"
  by (simp add: eval_defs write_fails_def start_fails_def tool_calls_def spawns_def)

text \<open>
  Claim C3, amended. When the first \<^verbatim>\<open>tools/call\<close> of a turn fails with a write failure
  on the session's pipe, the bridge tears the session down (it closes the input stream,
  kills the process, marks the bridge not ready and replaces the pending table by an empty
  one), and makes exactly one attempt to start a process again. If that attempt succeeds,
  one process is spawned and the original call is written exactly once more, and the
  outcome of that second call is what the caller gets, an error unmodified. If the attempt
  fails, nothing is spawned, the call is not retried, and the caller gets the error of the
  first write. In neither case is the call written more than twice.
\<close>

theorem first_failure_restart_and_retry:
  assumes run: "ChatMulti w pf user_tag ch prompt env = (r, w')"
    and started: "fst (ensureStarted w pf ch (start1 env)) = None"
    and pipe: "stdin (turn_ready w pf ch env) = Some h"
    and process: "cmd (turn_ready w pf ch env) = Some h"
    and fail: "write_err (first env) = Some (WriteError msg)"
  shows
    "fst (turn_first w pf user_tag ch prompt env) = Inl (WriteError msg)
     \<and> stdin (teardown (snd (turn_first w pf user_tag ch prompt env))) = None
     \<and> \<not> ready (teardown (snd (turn_first w pf user_tag ch prompt env)))
     \<and> pending (teardown (snd (turn_first w pf user_tag ch prompt env))) = Map.empty
     \<and> trace (teardown (snd (turn_first w pf user_tag ch prompt env))) =
         trace (snd (turn_first w pf user_tag ch prompt env)) @ [StdinClosed h, Killed h]
     \<and> prefix (trace (teardown (snd (turn_first w pf user_tag ch prompt env)))) (trace w')
     \<and> (if pipe_err (start2 env) = None \<and> spawn_err (start2 env) = None
         then spawns (trace w') = spawns (trace (turn_ready w pf ch env)) @
                [length (exited (turn_ready w pf ch env))]
              \<and> tool_calls (trace w') = tool_calls (trace w) @
                [chat_call w user_tag ch prompt, chat_call w user_tag ch prompt]
              \<and> r = fst (turn_second w pf user_tag ch prompt env)
              \<and> (case write_err (second env) of Some e2 \<Rightarrow> r = Inl e2 | None \<Rightarrow> True)
         else spawns (trace w') = spawns (trace (turn_ready w pf ch env))
              \<and> tool_calls (trace w') = tool_calls (trace w) @ [chat_call w user_tag ch prompt]
              \<and> r = Inl (WriteError msg))"
proof -
  let ?q1 = "turn_first w pf user_tag ch prompt env"
  let ?wt = "teardown (snd ?q1)"
  let ?rs = "turn_restart w pf user_tag ch prompt env"
  let ?q2 = "turn_second w pf user_tag ch prompt env"
  let ?c = "chat_call w user_tag ch prompt"
  have q1: "fst ?q1 = Inl (WriteError msg)"
    unfolding turn_first_def by (rule requestForChannel_write_fails [OF pipe fail])
  have s1: "stdin (snd ?q1) = Some h" "cmd (snd ?q1) = Some h"
      "exited (snd ?q1) = exited (turn_ready w pf ch env)"
      "spawns (trace (snd ?q1)) = spawns (trace (turn_ready w pf ch env))"
    by (simp_all add: turn_first_def requestForChannel_frame requestForChannel_spawns pipe process)
  note td = teardown_session [OF s1(1,2)]
  have rs: "?rs = start ?wt pf ch (start2 env)"
    by (simp add: turn_restart_def ensureStarted_def teardown_not_already)
  have calls1: "tool_calls (trace (snd ?q1)) = tool_calls (trace w) @ [?c]"
    by (simp add: turn_first_calls pipe)
  have grow_rs: "prefix (trace ?wt) (trace (snd ?rs))"
    unfolding rs by (rule start_grows)
  have grow_q2: "prefix (trace ?wt) (trace (snd ?q2))"
    using grow_rs requestForChannel_grows unfolding turn_second_def
    by (blast intro: prefix_order.trans)
  have spawn_rs: "spawns (trace (snd ?rs)) = spawns (trace (turn_ready w pf ch env)) @
      (if pipe_err (start2 env) = None \<and> spawn_err (start2 env) = None
       then [length (exited (turn_ready w pf ch env))] else [])"
    unfolding rs by (simp add: start_spawns teardown_quiet teardown_frame s1)
  show ?thesis
  proof (cases "pipe_err (start2 env) = None \<and> spawn_err (start2 env) = None")
    case True
    then have ok: "fst ?rs = None" and pipe2: "stdin (snd ?rs) \<noteq> None"
      unfolding rs by (simp_all add: start_succeeds)
    have r: "r = fst ?q2" and w': "trace w' = trace (snd ?q2)"
      using run q1 ok unfolding ChatMulti_stages
      by (auto simp: started bind_result_frame split: sum.splits)
    have calls2: "tool_calls (trace (snd ?q2)) = tool_calls (trace w) @ [?c, ?c]"
      using pipe2 by (simp add: turn_second_calls calls1)
    have spawn2: "spawns (trace (snd ?q2)) = spawns (trace (snd ?rs))"
      by (simp add: turn_second_def requestForChannel_spawns)
    have second_err: "case write_err (second env) of Some e2 \<Rightarrow> r = Inl e2 | None \<Rightarrow> True"
    proof (cases "write_err (second env)")
      case None
      then show ?thesis by simp
    next
      case (Some e2)
      from pipe2 obtain h2 where "stdin (snd ?rs) = Some h2" by blast
      from requestForChannel_write_fails [OF this Some]
      have "fst ?q2 = Inl e2" by (simp add: turn_second_def)
      with r Some show ?thesis by simp
    qed
    show ?thesis
      using True q1 td grow_q2 w' calls2 spawn2 spawn_rs r second_err by simp
  next
    case False
    then have failed: "fst ?rs \<noteq> None" and same: "snd ?rs = ?wt"
      unfolding rs using start_fails_same [of "start2 env" ?wt pf ch] by auto
    have r: "r = Inl (WriteError msg)" and w': "w' = snd ?rs"
      using run q1 failed unfolding ChatMulti_stages
      by (auto simp: started split: sum.splits option.splits)
    have calls: "tool_calls (trace w') = tool_calls (trace w) @ [?c]"
      by (simp add: w' turn_restart_calls calls1)
    show ?thesis
      using False q1 td w' same calls spawn_rs r by simp
  qed
qed

text \<open>
  A bridge whose first write fails with a broken pipe, whose restart succeeds, and whose
  second write fails again: two processes in all, the call written twice, and the second
  error handed to the caller.
\<close>

theorem first_failure_restart_and_retry_witness:
  "fst (ChatMulti (NewMCPBridge conf0 False) host0 None chanC ''list files''
          \<lparr>start1 = start_ok, first = write_fails ''broken pipe'', start2 = start_ok,
            second = write_fails ''closed pipe''\<rparr>) = Inl (WriteError ''closed pipe'')
   \<and> spawns (trace (snd (ChatMulti (NewMCPBridge conf0 False) host0 None chanC ''list files''
          \<lparr>start1 = start_ok, first = write_fails ''broken pipe'', start2 = start_ok,
            second = write_fails ''closed pipe''\<rparr>))) = [0, 1]
   \<and> length (tool_calls (trace (snd (ChatMulti (NewMCPBridge conf0 False) host0 None chanC ''list files''
          \<lparr>start1 = start_ok, first = write_fails ''broken pipe'', start2 = start_ok,
            second = write_fails ''closed pipe''\<rparr>)))) = 2"
proof -
  let ?env = "\<lparr>start1 = start_ok, first = write_fails ''broken pipe'', start2 = start_ok,
            second = write_fails ''closed pipe''\<rparr>"
  let ?w0 = "NewMCPBridge conf0 False"
  obtain r w' where run: "ChatMulti ?w0 host0 None chanC ''list files'' ?env = (r, w')"
    by force
  have started: "fst (ensureStarted ?w0 host0 chanC (start1 ?env)) = None"
    by (simp add: eval_defs)
  have pipe: "stdin (turn_ready ?w0 host0 chanC ?env) = Some 0"
    by (simp add: turn_ready_def eval_defs)
  have process: "cmd (turn_ready ?w0 host0 chanC ?env) = Some 0"
    by (simp add: turn_ready_def eval_defs)
  have fail: "write_err (first ?env) = Some (WriteError ''broken pipe'')"
    by (simp add: write_fails_def)
  have ok2: "pipe_err (start2 ?env) = None \<and> spawn_err (start2 ?env) = None"
    by (simp add: start_ok_def)
  have second: "write_err (second ?env) = Some (WriteError ''closed pipe'')"
    by (simp add: write_fails_def)
  have base: "spawns (trace (turn_ready ?w0 host0 chanC ?env)) = [0]"
      "length (exited (turn_ready ?w0 host0 chanC ?env)) = 1"
      "tool_calls (trace ?w0) = []"
    by (simp_all add: turn_ready_def eval_defs spawns_def)
  note th = first_failure_restart_and_retry [OF run started pipe process fail]
  from th ok2 second have r: "r = Inl (WriteError ''closed pipe'')"
    by auto
  from th ok2 base have s: "spawns (trace w') = [0, 1]"
    by auto
  from th ok2 base have c: "length (tool_calls (trace w')) = 2"
    by auto
  from r s c run show ?thesis by simp
qed

section \<open>Starting once\<close>

lemma start_already:
  assumes "pipe_err env = None" and "spawn_err env = None"
  shows "already (snd (start w pf ch env))"
  using start_succeeds [OF assms, of w pf ch]
  by (simp add: already_def isDead_def)

lemma ensureStarted_ok_already:
  assumes "fst (ensureStarted w pf ch env) = None"
  shows "already (snd (ensureStarted w pf ch env))"
proof (cases "already w")
  case True
  then show ?thesis by (simp add: ensureStarted_def)
next
  case False
  with assms have "fst (start w pf ch env) = None"
    by (simp add: ensureStarted_def)
  then have "pipe_err env = None" "spawn_err env = None"
    by (simp_all add: start_result split: option.splits)
  from start_already [OF this] False show ?thesis
    by (simp add: ensureStarted_def)
qed

text \<open>
  Claim C4, as it stands, has two concurrent callers never spawn two processes. Two callers
  on a fresh bridge that both make the readiness test before either has started a process
  both go on to \<^verbatim>\<open>start\<close>: two processes are spawned, and both are left running.
\<close>

theorem concurrent_callers_counterexample:
  "pcs (run_callers host0 chanC start_ok two_callers [0, 1, 0, 1]) = [Returned, Returned]
   \<and> spawns (trace (shared (run_callers host0 chanC start_ok two_callers [0, 1, 0, 1]))) = [0, 1]
   \<and> live (shared (run_callers host0 chanC start_ok two_callers [0, 1, 0, 1])) = [0, 1]"
  by (simp add: two_callers_def step_caller_def eval_defs spawns_def live_def)

text \<open>
  Claim C4, amended. \<^verbatim>\<open>ensureStarted\<close> is idempotent: when a session exists, is marked
  ready and its death signal has not fired, it returns at once, changes nothing and spawns
  nothing. Otherwise it is \<^verbatim>\<open>start\<close>, which spawns exactly one process when the pipes
  and the spawn succeed and none when they fail. After a call that succeeded the session
  is ready, so that a later call, made by the same or by another caller once the first has
  returned, returns at once and spawns nothing. Nothing guards callers that overlap: the
  test is made under the mutex, \<^verbatim>\<open>start\<close> runs after the mutex is released.
\<close>

theorem ensureStarted_idempotent:
  "(already w \<longrightarrow> ensureStarted w pf ch env = (None, w))
   \<and> (\<not> already w \<longrightarrow> ensureStarted w pf ch env = start w pf ch env)
   \<and> spawns (trace (snd (ensureStarted w pf ch env))) =
       spawns (trace w) @
         (if \<not> already w \<and> pipe_err env = None \<and> spawn_err env = None
          then [length (exited w)] else [])
   \<and> (fst (ensureStarted w pf ch env) = None \<longrightarrow>
        already (snd (ensureStarted w pf ch env))
        \<and> ensureStarted (snd (ensureStarted w pf ch env)) pf' ch' env' =
            (None, snd (ensureStarted w pf ch env)))"
proof -
  have a: "already w \<longrightarrow> ensureStarted w pf ch env = (None, w)"
    by (simp add: ensureStarted_def)
  have b: "\<not> already w \<longrightarrow> ensureStarted w pf ch env = start w pf ch env"
    by (simp add: ensureStarted_def)
  have c: "spawns (trace (snd (ensureStarted w pf ch env))) =
       spawns (trace w) @
         (if \<not> already w \<and> pipe_err env = None \<and> spawn_err env = None
          then [length (exited w)] else [])"
    by (simp add: ensureStarted_def start_spawns)
  have d: "fst (ensureStarted w pf ch env) = None \<longrightarrow>
        already (snd (ensureStarted w pf ch env))
        \<and> ensureStarted (snd (ensureStarted w pf ch env)) pf' ch' env' =
            (None, snd (ensureStarted w pf ch env))"
    using ensureStarted_ok_already [of w pf ch env] by (simp add: ensureStarted_def)
  from a b c d show ?thesis by blast
qed

text \<open>
  On a fresh bridge the first call spawns process 0, and a second call, on the bridge the
  first one left, returns at once with that bridge.
\<close>

theorem ensureStarted_idempotent_witness:
  "\<not> already (NewMCPBridge conf0 False)
   \<and> fst (ensureStarted (NewMCPBridge conf0 False) host0 chanC start_ok) = None
   \<and> spawns (trace (snd (ensureStarted (NewMCPBridge conf0 False) host0 chanC start_ok))) = [0]
   \<and> already (snd (ensureStarted (NewMCPBridge conf0 False) host0 chanC start_ok))
   \<and> ensureStarted (snd (ensureStarted (NewMCPBridge conf0 False) host0 chanC start_ok))
        host0 chanC start_ok
       = (None, snd (ensureStarted (NewMCPBridge conf0 False) host0 chanC start_ok))"
proof -
  have fresh: "\<not> already (NewMCPBridge conf0 False)"
    by (simp add: already_def NewMCPBridge_def)
  have ok: "fst (ensureStarted (NewMCPBridge conf0 False) host0 chanC start_ok) = None"
    by (simp add: eval_defs)
  have env: "pipe_err start_ok = None" "spawn_err start_ok = None"
      "spawns (trace (NewMCPBridge conf0 False)) = []" "length (exited (NewMCPBridge conf0 False)) = 0"
    by (simp_all add: start_ok_def NewMCPBridge_def)
  note th = ensureStarted_idempotent [of "NewMCPBridge conf0 False" host0 chanC start_ok
      host0 chanC start_ok]
  from th fresh env
  have s: "spawns (trace (snd (ensureStarted (NewMCPBridge conf0 False) host0 chanC start_ok))) = [0]"
    by (elim conjE) simp
  from th ok have "already (snd (ensureStarted (NewMCPBridge conf0 False) host0 chanC start_ok))
      \<and> ensureStarted (snd (ensureStarted (NewMCPBridge conf0 False) host0 chanC start_ok))
            host0 chanC start_ok
          = (None, snd (ensureStarted (NewMCPBridge conf0 False) host0 chanC start_ok))"
    by blast
  with fresh ok s show ?thesis by blast
qed

section \<open>The idle timer\<close>

lemma seconds_small:
  assumes "0 \<le> n" and "n \<le> 9223372036"
  shows "seconds n = n * 1000000000"
proof -
  define k where "k = n * 1000000000"
  have k: "0 \<le> k" "k < 9223372036854775808"
    using assms by (simp_all add: k_def)
  have w: "(word_of_int n * 1000000000 :: 64 word) = word_of_int k"
    by (simp add: k_def)
  have "sint (word_of_int k :: 64 word) =
      (k + 2 ^ (LENGTH(64) - 1)) mod 2 ^ LENGTH(64) - 2 ^ (LENGTH(64) - 1)"
    by (rule int_word_sint)
  also have "\<dots> = (k + 9223372036854775808) mod 18446744073709551616 - 9223372036854775808"
    by simp
  also have "\<dots> = k"
    using k by (simp add: mod_pos_pos_trivial)
  finally show ?thesis
    by (simp only: seconds_def w k_def)
qed

lemma since_at_least:
  assumes "x \<le> 2 ^ 63 - 1" and "- (2 ^ 63) < x"
  shows "(\<not> since now t < x) = (x \<le> now - t)"
  using assms by (auto simp: since_def)

lemma idleExpired_iff:
  assumes "idleSeconds w = T" and "0 < T" and "T \<le> 9223372036"
  shows "idleExpired w T = (T * 1000000000 \<le> clock w - lastActive w)"
proof -
  have s: "seconds T = T * 1000000000"
    using assms by (intro seconds_small) simp_all
  have "T * 1000000000 \<le> 2 ^ 63 - 1" "- (2 ^ 63) < T * 1000000000"
    using assms by simp_all
  from since_at_least [OF this]
  have "(\<not> since (clock w) (lastActive w) < T * 1000000000) =
      (T * 1000000000 \<le> clock w - lastActive w)" .
  then show ?thesis
    using assms by (auto simp: idleExpired_def s)
qed

lemma touchActivity_arms:
  assumes "idleSeconds w = T" and "0 < T" and "T \<le> 9223372036"
  shows "touchActivity w = w\<lparr>lastActive := clock w, idleTimer := Some (clock w + T * 1000000000, T)\<rparr>"
  using assms seconds_small [of T] by (simp add: touchActivity_def)

lemma handleNotify_touches:
  assumes "as_string (field raw ''method'') = ''codex/event''"
    and "as_map (field (as_map (field raw ''params'')) ''msg'') \<noteq> None"
  shows "lastActive (handleNotify w raw) = lastActive (touchActivity w)"
    and "idleTimer (handleNotify w raw) = idleTimer (touchActivity w)"
proof -
  from assms(2) obtain m where m: "as_map (field (as_map (field raw ''params'')) ''msg'') = Some m"
    by blast
  show "lastActive (handleNotify w raw) = lastActive (touchActivity w)"
    using assms(1) m by (simp add: handleNotify_def Let_def end_reasoning_frame emit_frame)
  show "idleTimer (handleNotify w raw) = idleTimer (touchActivity w)"
    using assms(1) m by (simp add: handleNotify_def Let_def end_reasoning_frame emit_frame)
qed

lemma start_touches:
  assumes "fst (start w pf ch env) = None"
  shows "\<exists>w1. snd (start w pf ch env) = touchActivity w1 \<and> idleSeconds w1 = idleSeconds w"
  using assms
  by (auto simp: start_def Let_def emit_frame notify_frame request_frame split: option.splits)

lemma ChatMulti_touches:
  assumes "ChatMulti w pf user_tag ch prompt env = (Inr res, w')"
  shows "\<exists>w1. lastActive w' = lastActive (touchActivity w1) \<and> idleTimer w' = idleTimer (touchActivity w1)
          \<and> clock w' = clock w1 \<and> idleSeconds w1 = idleSeconds w"
proof -
  have a: "\<exists>w1. lastActive (bind_result w3 ch res) = lastActive (touchActivity w1)
          \<and> idleTimer (bind_result w3 ch res) = idleTimer (touchActivity w1)
          \<and> clock (bind_result w3 ch res) = clock w1 \<and> idleSeconds w1 = idleSeconds w"
    if "idleSeconds w3 = idleSeconds w" for w3
    using that
    by (intro exI [of _ w3])
      (simp add: bind_result_def Let_def touchActivity_frame split: option.split json.split)
  from assms show ?thesis
    unfolding ChatMulti_stages
    by (auto simp: turn_first_frame turn_second_frame intro!: a split: option.splits sum.splits if_splits)
qed

text \<open>
  Claim C5, as it stands, has every notification received reset the timer. A notification
  whose method is not \<^verbatim>\<open>codex/event\<close> is returned from at once (line 1167): received 5
  seconds after the bridge started with a threshold of 10 seconds, it leaves the recorded
  activity at 0 and the timer due at 10 seconds, where the handler, only 5 seconds after
  that notification, finds the bridge idle.
\<close>

theorem other_notification_counterexample:
  "clock (readArrivals idle_bridge [(5000000000, Some progress_note)]) = 5000000000
   \<and> lastActive (readArrivals idle_bridge [(5000000000, Some progress_note)]) = 0
   \<and> idleTimer (readArrivals idle_bridge [(5000000000, Some progress_note)]) = Some (10000000000, 10)
   \<and> idleExpired ((readArrivals idle_bridge [(5000000000, Some progress_note)])\<lparr>clock := 10000000000\<rparr>) 10"
proof -
  have s: "seconds 10 = 10000000000"
    using seconds_small [of 10] by simp
  show ?thesis
    by (simp add: idle_bridge_def progress_note_def eval_defs handleNotify_def idleExpired_def
          since_def s)
qed

text \<open>
  Claim C5, amended. With an idle threshold of \<open>T\<close> seconds, \<open>T\<close> positive and small
  enough for \<open>T\<close> seconds to be a \<^verbatim>\<open>time.Duration\<close>: \<^verbatim>\<open>touchActivity\<close> records the current
  time as the last activity and replaces the timer by one due \<open>T\<close> seconds later. It is
  called when a chat turn is about to write its call and again when the response has
  arrived, at the end of every start that succeeds, and for every \<^verbatim>\<open>codex/event\<close>
  notification that carries a \<^verbatim>\<open>msg\<close> object (other notifications, and the
  \<^verbatim>\<open>initialize\<close> and \<^verbatim>\<open>shutdown\<close> requests by themselves, do not reset the timer). When the
  timer fires, the handler closes the bridge if and only if at least \<open>T\<close> seconds have
  passed since the last recorded activity: after an activity at time \<open>t\<close> it closes from
  \<open>t + T\<close> on and not before.
\<close>

theorem idle_timer_follows_activity:
  assumes "idleSeconds w = T" and "0 < T" and "T \<le> 9223372036"
  shows
    "touchActivity w = w\<lparr>lastActive := clock w, idleTimer := Some (clock w + T * 1000000000, T)\<rparr>
     \<and> idleExpired w T = (T * 1000000000 \<le> clock w - lastActive w)
     \<and> idleFire w T cenv = (if T * 1000000000 \<le> clock w - lastActive w then Close w cenv else w)
     \<and> idleExpired ((touchActivity w)\<lparr>clock := t\<rparr>) T = (clock w + T * 1000000000 \<le> t)
     \<and> (as_string (field raw ''method'') = ''codex/event''
          \<and> as_map (field (as_map (field raw ''params'')) ''msg'') \<noteq> None \<longrightarrow>
        lastActive (handleNotify w raw) = clock w
        \<and> idleTimer (handleNotify w raw) = Some (clock w + T * 1000000000, T))
     \<and> lastActive (turn_ready w pf ch env) = clock (turn_ready w pf ch env)
     \<and> idleTimer (turn_ready w pf ch env) = Some (clock (turn_ready w pf ch env) + T * 1000000000, T)
     \<and> (ChatMulti w pf user_tag ch prompt env = (Inr res, w') \<longrightarrow>
        lastActive w' = clock w' \<and> idleTimer w' = Some (clock w' + T * 1000000000, T))
     \<and> (fst (start w pf ch senv) = None \<longrightarrow>
        lastActive (snd (start w pf ch senv)) = clock (snd (start w pf ch senv))
        \<and> idleTimer (snd (start w pf ch senv)) =
            Some (clock (snd (start w pf ch senv)) + T * 1000000000, T))"
proof -
  note arm = touchActivity_arms [OF _ assms(2,3)]
  have a: "touchActivity w = w\<lparr>lastActive := clock w, idleTimer := Some (clock w + T * 1000000000, T)\<rparr>"
    by (rule arm [OF assms(1)])
  have b: "idleExpired w T = (T * 1000000000 \<le> clock w - lastActive w)"
    by (rule idleExpired_iff [OF assms])
  have c: "idleFire w T cenv = (if T * 1000000000 \<le> clock w - lastActive w then Close w cenv else w)"
    by (simp add: idleFire_def b)
  have "idleExpired ((touchActivity w)\<lparr>clock := t\<rparr>) T =
      (T * 1000000000 \<le> clock ((touchActivity w)\<lparr>clock := t\<rparr>) - lastActive ((touchActivity w)\<lparr>clock := t\<rparr>))"
    by (rule idleExpired_iff [OF _ assms(2,3)]) (simp add: touchActivity_frame assms(1))
  then have d: "idleExpired ((touchActivity w)\<lparr>clock := t\<rparr>) T = (clock w + T * 1000000000 \<le> t)"
    by (auto simp: a)
  have e: "as_string (field raw ''method'') = ''codex/event''
          \<and> as_map (field (as_map (field raw ''params'')) ''msg'') \<noteq> None \<longrightarrow>
        lastActive (handleNotify w raw) = clock w
        \<and> idleTimer (handleNotify w raw) = Some (clock w + T * 1000000000, T)"
    using handleNotify_touches [of raw w] by (simp add: a)
  let ?w1 = "snd (ensureStarted w pf ch (start1 env))"
  have "idleSeconds ?w1 = T"
    by (simp add: ensureStarted_frame assms(1))
  from arm [OF this]
  have f: "lastActive (turn_ready w pf ch env) = clock (turn_ready w pf ch env)
     \<and> idleTimer (turn_ready w pf ch env) = Some (clock (turn_ready w pf ch env) + T * 1000000000, T)"
    by (simp add: turn_ready_def)
  have g: "lastActive w' = clock w' \<and> idleTimer w' = Some (clock w' + T * 1000000000, T)"
    if "ChatMulti w pf user_tag ch prompt env = (Inr res, w')"
  proof -
    from ChatMulti_touches [OF that] obtain w1 where
      w1: "lastActive w' = lastActive (touchActivity w1)" "idleTimer w' = idleTimer (touchActivity w1)"
        "clock w' = clock w1" "idleSeconds w1 = idleSeconds w"
      by blast
    from arm [of w1] w1 assms(1) show ?thesis by simp
  qed
  have h: "lastActive (snd (start w pf ch senv)) = clock (snd (start w pf ch senv))
        \<and> idleTimer (snd (start w pf ch senv)) =
            Some (clock (snd (start w pf ch senv)) + T * 1000000000, T)"
    if "fst (start w pf ch senv) = None"
  proof -
    from start_touches [OF that] obtain w1 where
      w1: "snd (start w pf ch senv) = touchActivity w1" "idleSeconds w1 = idleSeconds w"
      by blast
    from arm [of w1] w1 assms(1) show ?thesis by simp
  qed
  from a b c d e f g h show ?thesis by blast
qed

text \<open>
  The bridge with a threshold of 10 seconds: an event received at 5 seconds moves the
  recorded activity to 5 seconds and the timer to 15 seconds, the handler run at 10 seconds
  leaves the bridge alone, and the handler run at 15 seconds finds it idle.
\<close>

theorem idle_timer_follows_activity_witness:
  "idleSeconds idle_bridge = 10
   \<and> lastActive (readArrivals idle_bridge [(5000000000, Some event_note)]) = 5000000000
   \<and> idleTimer (readArrivals idle_bridge [(5000000000, Some event_note)]) = Some (15000000000, 10)
   \<and> \<not> idleExpired ((readArrivals idle_bridge [(5000000000, Some event_note)])\<lparr>clock := 10000000000\<rparr>) 10
   \<and> idleExpired ((readArrivals idle_bridge [(5000000000, Some event_note)])\<lparr>clock := 15000000000\<rparr>) 10"
proof -
  let ?w = "idle_bridge\<lparr>clock := 5000000000\<rparr>"
  let ?raw = "Some [(''jsonrpc'', JStr ''2.0''), (''method'', JStr ''codex/event''),
                      (''params'', JObj [(''msg'', JObj [(''type'', JStr ''token_count'')])])]"
  have T: "idleSeconds ?w = 10" "0 < (10 :: int)" "(10 :: int) \<le> 9223372036"
    by (simp_all add: idle_bridge_def ensureStarted_frame NewMCPBridge_def conf0_def)
  have ev: "as_string (field ?raw ''method'') = ''codex/event''
      \<and> as_map (field (as_map (field ?raw ''params'')) ''msg'') \<noteq> None"
    by (simp add: as_string_def as_map_def field_def)
  have clk: "clock idle_bridge = 0" "blocked idle_bridge = False"
    by (simp_all add: idle_bridge_def eval_defs)
  have run: "readArrivals idle_bridge [(5000000000, Some event_note)] = handleNotify ?w ?raw"
    by (simp add: event_note_def handleLine_def unmarshal_map_def as_string_def field_def clk)
  note th = idle_timer_follows_activity [OF T, where raw = ?raw]
  from th ev have n: "lastActive (handleNotify ?w ?raw) = 5000000000"
      "idleTimer (handleNotify ?w ?raw) = Some (15000000000, 10)"
    by simp_all
  have T': "idleSeconds ((handleNotify ?w ?raw)\<lparr>clock := t\<rparr>) = 10" for t
    by (simp add: handleNotify_frame T)
  from idle_timer_follows_activity [OF T' T(2,3)] n
  have "idleExpired ((handleNotify ?w ?raw)\<lparr>clock := t\<rparr>) 10 = (15000000000 \<le> t)" for t
    by simp
  then have "\<not> idleExpired ((handleNotify ?w ?raw)\<lparr>clock := 10000000000\<rparr>) 10"
    "idleExpired ((handleNotify ?w ?raw)\<lparr>clock := 15000000000\<rparr>) 10"
    by simp_all
  moreover have "idleSeconds idle_bridge = 10"
    using T(1) by simp
  ultimately show ?thesis
    using n unfolding run by blast
qed

section \<open>Events that nobody owns\<close>









section \<open>Properties of the capture buffer\<close>







end
